theory Spec2Isabelle
  imports Complex_Main
begin

section \<open>Strings and characters\<close>

text \<open>
  A JavaScript string is a sequence of UTF-16 code units. Every code unit that occurs in
  the repository's configuration, messages and scenario texts is below 256, so a string is
  modelled as a \<^typ>\<open>string\<close> whose characters are the code units \<open>0x00\<close> to \<open>0xFF\<close>;
  \<open>n\<close> with tilde is \<open>CHR 0xF1\<close>. A character is \<open>Char b0 \<dots> b7\<close>, least significant bit
  first.
\<close>

abbreviation enye :: char where "enye \<equiv> CHR 0xF1"

definition quoted :: "string \<Rightarrow> string" where
  "quoted s = [CHR 0x27] @ s @ [CHR 0x27]"

text \<open>The character classes of ECMAScript regular expressions, restricted to this range.\<close>

definition is_digit :: "char \<Rightarrow> bool" where
  "is_digit c \<longleftrightarrow> c \<in> set ''0123456789''"

definition is_word :: "char \<Rightarrow> bool" where
  "is_word c \<longleftrightarrow> c \<in> set ''abcdefghijklmnopqrstuvwxyzABCDEFGHIJKLMNOPQRSTUVWXYZ0123456789_''"

definition is_line_terminator :: "char \<Rightarrow> bool" where
  "is_line_terminator c \<longleftrightarrow> c \<in> set [CHR 0x0A, CHR 0x0D]"

definition is_white :: "char \<Rightarrow> bool" where
  "is_white c \<longleftrightarrow> c \<in> set [CHR 0x09, CHR 0x0A, CHR 0x0B, CHR 0x0C, CHR 0x0D, CHR 0x20, CHR 0xA0]"

text \<open>
  Case mapping. The letters that have a partner of the other case in this range are
  \<open>a\<close> to \<open>z\<close> (\<open>0x61\<close>--\<open>0x7A\<close>) and \<open>0xE0\<close>--\<open>0xFE\<close> without \<open>0xF7\<close>, with the partner 32
  below: the same code with bit 5 cleared. \<open>has_case_partner\<close> reads the other seven bits:
  bit 6 set, and the low five bits in \<open>1..26\<close> (bit 7 clear) or not \<open>23\<close>, \<open>31\<close> (bit 7 set).
  The lemmas \<open>case_partner_letters\<close>, \<open>toUpperCase_letters\<close> and \<open>toLowerCase_letters\<close>
  below tie these functions to the two tables of letters.
\<close>

definition lower_letters :: string where
  "lower_letters = ''abcdefghijklmnopqrstuvwxyz'' @
     [CHR 0xE0, CHR 0xE1, CHR 0xE2, CHR 0xE3, CHR 0xE4, CHR 0xE5, CHR 0xE6, CHR 0xE7,
      CHR 0xE8, CHR 0xE9, CHR 0xEA, CHR 0xEB, CHR 0xEC, CHR 0xED, CHR 0xEE, CHR 0xEF,
      CHR 0xF0, CHR 0xF1, CHR 0xF2, CHR 0xF3, CHR 0xF4, CHR 0xF5, CHR 0xF6,
      CHR 0xF8, CHR 0xF9, CHR 0xFA, CHR 0xFB, CHR 0xFC, CHR 0xFD, CHR 0xFE]"

definition upper_letters :: string where
  "upper_letters = ''ABCDEFGHIJKLMNOPQRSTUVWXYZ'' @
     [CHR 0xC0, CHR 0xC1, CHR 0xC2, CHR 0xC3, CHR 0xC4, CHR 0xC5, CHR 0xC6, CHR 0xC7,
      CHR 0xC8, CHR 0xC9, CHR 0xCA, CHR 0xCB, CHR 0xCC, CHR 0xCD, CHR 0xCE, CHR 0xCF,
      CHR 0xD0, CHR 0xD1, CHR 0xD2, CHR 0xD3, CHR 0xD4, CHR 0xD5, CHR 0xD6,
      CHR 0xD8, CHR 0xD9, CHR 0xDA, CHR 0xDB, CHR 0xDC, CHR 0xDD, CHR 0xDE]"

fun has_case_partner :: "char \<Rightarrow> bool" where
  "has_case_partner (Char b0 b1 b2 b3 b4 b5 b6 b7) =
     (b6 \<and> (if b7 then \<not> (b0 \<and> b1 \<and> b2 \<and> b4)
               else (b0 \<or> b1 \<or> b2 \<or> b3 \<or> b4) \<and> \<not> (b4 \<and> b3 \<and> (b2 \<or> (b1 \<and> b0)))))"

fun toUpperCase_char :: "char \<Rightarrow> char" where
  "toUpperCase_char (Char b0 b1 b2 b3 b4 b5 b6 b7) =
     (if has_case_partner (Char b0 b1 b2 b3 b4 b5 b6 b7) then Char b0 b1 b2 b3 b4 False b6 b7
      else Char b0 b1 b2 b3 b4 b5 b6 b7)"

fun toLowerCase_char :: "char \<Rightarrow> char" where
  "toLowerCase_char (Char b0 b1 b2 b3 b4 b5 b6 b7) =
     (if has_case_partner (Char b0 b1 b2 b3 b4 b5 b6 b7) then Char b0 b1 b2 b3 b4 True b6 b7
      else Char b0 b1 b2 b3 b4 b5 b6 b7)"

definition toLowerCase :: "string \<Rightarrow> string" where
  "toLowerCase s = map toLowerCase_char s"

text \<open>\<open>String.prototype.trim\<close> removes white space and line terminators at both ends.\<close>

definition trim :: "string \<Rightarrow> string" where
  "trim s = rev (dropWhile is_white (rev (dropWhile is_white s)))"

text \<open>\<open>String.prototype.includes\<close>: \<open>t\<close> occurs in \<open>s\<close> as a contiguous substring.\<close>

fun string_includes :: "string \<Rightarrow> string \<Rightarrow> bool" where
  "string_includes [] t = (t = [])"
| "string_includes (c # cs) t = (take (length t) (c # cs) = t \<or> string_includes cs t)"

text \<open>Decimal notation of a natural number, as a template literal prints an array index.\<close>

definition digit_char :: "nat \<Rightarrow> char" where
  "digit_char n = ''0123456789'' ! (n mod 10)"

fun show_nat :: "nat \<Rightarrow> string" where
  "show_nat n = (if n < 10 then [digit_char n] else show_nat (n div 10) @ [digit_char n])"

declare show_nat.simps [simp del]

section \<open>ECMAScript regular expressions\<close>

text \<open>
  The abstract syntax of the patterns the repository writes: literal characters, \<open>.\<close>,
  character classes built from characters and the escapes for digits, word characters and
  white space, the assertions start of input, end of input and word boundary, sequence,
  alternation and the greedy quantifier with a lower and an optional upper bound (\<open>?\<close>,
  \<open>*\<close> and \<open>+\<close> are the bounds \<open>0..1\<close>, \<open>0..\<close> and \<open>1..\<close>). Groups only delimit: no
  pattern of the repository refers back to a capture. No pattern has the flag \<open>m\<close>, so
  the two input assertions hold at the ends of the input only.
\<close>

datatype cset = Ch char | Digit | Word | White

datatype regex =
    Lit string
  | Dot
  | Cls "cset list"
  | Bol
  | Eol
  | WordBoundary
  | Cat "regex list"
  | Alt "regex list"
  | Rep nat "nat option" regex

abbreviation Opt :: "regex \<Rightarrow> regex" where "Opt r \<equiv> Rep 0 (Some 1) r"
abbreviation Star :: "regex \<Rightarrow> regex" where "Star r \<equiv> Rep 0 None r"
abbreviation Plus :: "regex \<Rightarrow> regex" where "Plus r \<equiv> Rep 1 None r"
abbreviation Words :: "string list \<Rightarrow> regex" where "Words ws \<equiv> Alt (map Lit ws)"

text \<open>A regular expression object: its pattern and the flags \<open>i\<close> and \<open>g\<close>.\<close>

datatype jsregex = RegExp (source: regex) (ignoreCase: bool) (global: bool)

text \<open>
  With the flag \<open>i\<close> two characters match when their canonical (upper-case) forms are
  equal. The three escape classes contain the partner of each of their letters, so the
  flag does not change them.
\<close>

definition char_eq :: "bool \<Rightarrow> char \<Rightarrow> char \<Rightarrow> bool" where
  "char_eq ic a c \<longleftrightarrow> a = c \<or> (ic \<and> toUpperCase_char a = toUpperCase_char c)"

fun cset_match :: "bool \<Rightarrow> cset \<Rightarrow> char \<Rightarrow> bool" where
  "cset_match ic (Ch a) c = char_eq ic a c"
| "cset_match ic Digit c = is_digit c"
| "cset_match ic Word c = is_word c"
| "cset_match ic White c = is_white c"

text \<open>
  A position in the input is the character before it (\<open>None\<close> at the start of the input)
  and the rest of the input. A matcher maps a position to the positions where a match
  starting there can end, in the order in which the backtracking matcher of the language
  definition tries them; the first one is the match that \<open>exec\<close> reports.
\<close>

type_synonym cursor = "char option \<times> string"

definition step_char :: "(char \<Rightarrow> bool) \<Rightarrow> cursor \<Rightarrow> cursor list" where
  "step_char P x = (case snd x of [] \<Rightarrow> [] | c # cs \<Rightarrow> if P c then [(Some c, cs)] else [])"

fun lit :: "bool \<Rightarrow> string \<Rightarrow> cursor \<Rightarrow> cursor list" where
  "lit ic [] x = [x]"
| "lit ic (a # as) x = concat (map (lit ic as) (step_char (char_eq ic a) x))"

definition at_word_boundary :: "cursor \<Rightarrow> bool" where
  "at_word_boundary x \<longleftrightarrow>
     (case fst x of None \<Rightarrow> False | Some c \<Rightarrow> is_word c)
       \<noteq> (case snd x of [] \<Rightarrow> False | c # cs \<Rightarrow> is_word c)"

text \<open>
  The greedy quantifier (RepeatMatcher): once the minimum is reached an iteration has to
  consume input, and the iterations are tried before the continuation. The bound
  \<open>length (snd y) \<le> length (snd x)\<close> of the other case is what makes the recursion
  terminate; the matcher of a pattern never moves backwards, so it removes nothing
  (lemmas \<open>forward_ends\<close> and \<open>rep_RepeatMatcher\<close> below).
\<close>

function rep :: "nat \<Rightarrow> nat option \<Rightarrow> (cursor \<Rightarrow> cursor list) \<Rightarrow> cursor \<Rightarrow> cursor list" where
  "rep lo hi m x =
     (if hi = Some 0 then []
      else concat (map (rep (lo - 1) (map_option (\<lambda>h. h - 1) hi) m)
             (filter (\<lambda>y. if lo = 0 then length (snd y) < length (snd x)
                           else length (snd y) \<le> length (snd x)) (m x))))
     @ (if lo = 0 then [x] else [])"
  by pat_completeness auto
termination
  by (relation "measure (\<lambda>(lo, hi, m, x). lo + length (snd x))") (auto split: if_splits)

declare rep.simps [simp del]

primrec ends :: "bool \<Rightarrow> regex \<Rightarrow> cursor \<Rightarrow> cursor list" where
  "ends ic (Lit cs) = lit ic cs"
| "ends ic Dot = step_char (\<lambda>c. \<not> is_line_terminator c)"
| "ends ic (Cls as) = step_char (\<lambda>c. list_ex (\<lambda>a. cset_match ic a c) as)"
| "ends ic Bol = (\<lambda>x. if fst x = None then [x] else [])"
| "ends ic Eol = (\<lambda>x. if snd x = [] then [x] else [])"
| "ends ic WordBoundary = (\<lambda>x. if at_word_boundary x then [x] else [])"
| "ends ic (Cat rs) = foldr (\<lambda>m k x. concat (map k (m x))) (map (ends ic) rs) (\<lambda>x. [x])"
| "ends ic (Alt rs) = (\<lambda>x. concat (map (\<lambda>m. m x) (map (ends ic) rs)))"
| "ends ic (Rep lo hi r) = rep lo hi (ends ic r)"

text \<open>
  \<open>RegExp.prototype.test\<close> of a regular expression without the flag \<open>g\<close>: is there a match
  starting at some index of the text, from index 0 to its length.
\<close>

fun search :: "bool \<Rightarrow> regex \<Rightarrow> char option \<Rightarrow> string \<Rightarrow> bool" where
  "search ic r p [] = (ends ic r (p, []) \<noteq> [])"
| "search ic r p (c # cs) = (ends ic r (p, c # cs) \<noteq> [] \<or> search ic r (Some c) cs)"

definition regex_test :: "jsregex \<Rightarrow> string \<Rightarrow> bool" where
  "regex_test re text = search (ignoreCase re) (source re) None text"

text \<open>
  \<open>String.prototype.match\<close> with a regular expression that has the flag \<open>g\<close>: the matched
  substrings from left to right, each search starting where the previous match ended, one
  character further after an empty match. \<open>n\<close> counts the characters still inside the
  previous match. The result \<open>null\<close> of JavaScript (no match) is the empty list.
\<close>

fun scan :: "bool \<Rightarrow> regex \<Rightarrow> nat \<Rightarrow> char option \<Rightarrow> string \<Rightarrow> string list" where
  "scan ic r n p [] = (if n = 0 \<and> ends ic r (p, []) \<noteq> [] then [[]] else [])"
| "scan ic r (Suc n) p (c # cs) = scan ic r n (Some c) cs"
| "scan ic r 0 p (c # cs) =
     (case ends ic r (p, c # cs) of
        [] \<Rightarrow> scan ic r 0 (Some c) cs
      | e # _ \<Rightarrow> (let k = Suc (length cs) - length (snd e)
                  in take k (c # cs) # scan ic r (k - 1) (Some c) cs))"

definition string_match :: "string \<Rightarrow> jsregex \<Rightarrow> string list" where
  "string_match text re = scan (ignoreCase re) (source re) 0 None text"

text \<open>A matcher moves forward: no end position lies before the start position.\<close>

definition forward :: "(cursor \<Rightarrow> cursor list) \<Rightarrow> bool" where
  "forward m \<longleftrightarrow> (\<forall>x. \<forall>y \<in> set (m x). length (snd y) \<le> length (snd x))"

section \<open>The medical configuration: semantic patterns\<close>

text \<open>
  \<open>semantic.patterns\<close> of the medical configuration module, pattern by pattern in the
  order of the source. \<open>fragments\<close> and \<open>complete\<close> are arrays; \<open>intents\<close> and \<open>entities\<close>
  are objects, whose properties JavaScript enumerates in the order they are written.
\<close>

definition patterns_fragments :: "jsregex list" where
  "patterns_fragments =
    [RegExp (Cat [Bol, Words [''quiero'', ''necesito'', ''puedo'', ''me'', ''cual'', ''como'', ''donde'', ''cuando''], Eol]) True False,
     RegExp (Cat [Bol, Words [''para'', ''en'', ''el'', ''la'', ''un'', ''una'', ''por''], Eol]) True False,
     RegExp (Cat [Bol, Words [''turno'', ''cita'', ''consulta'', ''precio'', ''horario'', ''ubicacion''], Eol]) True False,
     RegExp (Cat [Bol, Words [''cancelar'', ''modificar'', ''cambiar'', ''reagendar''], Eol]) True False,
     RegExp (Cat [Bol, Words [''doctor'', ''doctora'', ''dr'', ''dra''], Eol]) True False,
     RegExp (Cat [Bol, Words [''me duele'', ''tengo dolor'', ''siento'', ''me molesta''], Eol]) True False,
     RegExp (Cat [Bol, Words [''obra social'', ''prepaga'', ''osde'', ''swiss'', ''galeno''], Eol]) True False,
     RegExp (Cat [Bol, Cat [Lit ''cuanto '', Words [''cuesta'', ''vale'', ''sale'']], Eol]) True False,
     RegExp (Cat [Bol, Words [''ma'' @ [enye] @ ''ana'', ''tarde'', ''noche'', ''hoy'', ''ayer''], Eol]) True False,
     RegExp (Cat [Bol, Words [''lunes'', ''martes'', ''miercoles'', ''jueves'', ''viernes'', ''sabado'', ''domingo''], Eol]) True False]"

text \<open>
  The array \<open>complete\<close>, in the groups that the comments of the source give it: complete
  appointment requests, information requests, modifications, medical queries, then
  greetings and farewells, then questions.
\<close>

definition complete_appointment_requests :: "jsregex list" where
  "complete_appointment_requests =
    [RegExp (Cat [Lit ''quiero '', Words [''un turno'', ''una cita'', ''agendar''], Lit '' '',
                  Words [''para'', ''en'', ''el'', ''la''], Lit '' '', Plus Dot]) True False,
     RegExp (Cat [Lit ''necesito '', Words [''un turno'', ''una cita''], Lit '' '', Plus Dot]) True False,
     RegExp (Cat [Lit ''puedo '', Words [''agendar'', ''solicitar''], Lit '' '', Plus Dot, Lit '' '',
                  Words [''turno'', ''cita'']]) True False]"

definition complete_information_requests :: "jsregex list" where
  "complete_information_requests =
    [RegExp (Cat [Alt [Lit ''cual es'', Cat [Lit ''cuanto '', Words [''cuesta'', ''vale'', ''sale'']]], Lit '' '',
                  Words [''el precio'', ''la tarifa'', ''el costo''], Lit '' '', Plus Dot]) True False,
     RegExp (Cat [Alt [Cat [Lit ''donde '', Words [''esta'', ''queda'']], Lit ''cual es la direccion'',
                       Lit ''ubicacion del''], Lit '' consultorio'']) True False,
     RegExp (Cat [Words [''que'', ''cuales''], Lit '' '', Words [''horarios'', ''dias''], Lit '' '',
                  Words [''atiende'', ''trabaja'', ''tiene'']]) True False,
     RegExp (Cat [Words [''acepta'', ''atiende'', ''toma''], Lit '' '',
                  Words [''obra social'', ''prepaga'', ''osde'', ''swiss medical'']]) True False]"

definition complete_modifications :: "jsregex list" where
  "complete_modifications =
    [RegExp (Cat [Lit ''necesito '', Words [''cancelar'', ''modificar'', ''cambiar'', ''reagendar''], Lit '' '',
                  Words [''mi'', ''el''], Lit '' '', Words [''turno'', ''cita''], Lit '' '', Plus Dot]) True False,
     RegExp (Cat [Words [''quiero'', ''necesito''], Lit '' cambiar '',
                  Words [''mi turno'', ''la fecha'', ''el horario''], Lit '' '', Plus Dot]) True False]"

definition complete_medical_queries :: "jsregex list" where
  "complete_medical_queries =
    [RegExp (Cat [Lit ''me duele '', Plus Dot, Lit '' '', Words [''desde'', ''hace'', ''por'']]) True False,
     RegExp (Cat [Lit ''tengo '', Words [''dolor'', ''molestia'', ''problema''], Lit '' '',
                  Words [''en'', ''de''], Lit '' '', Plus Dot]) True False]"

definition greeting_pattern :: jsregex where
  "greeting_pattern =
     RegExp (Cat [Bol, Words [''hola'', ''buenos dias'', ''buenas tardes'', ''buenas noches''],
                  Opt (Words ['' doctor'', '' doctora'']), Eol]) True False"

definition thanks_pattern :: jsregex where
  "thanks_pattern =
     RegExp (Cat [Bol, Words [''gracias'', ''muchas gracias'', ''perfecto'', ''excelente'', ''listo'', ''ok''], Eol]) True False"

definition farewell_pattern :: jsregex where
  "farewell_pattern =
     RegExp (Cat [Bol, Words [''hasta luego'', ''nos vemos'', ''que tenga buen dia'', ''chau'', ''adios''], Eol]) True False"

definition greetings_farewells :: "jsregex list" where
  "greetings_farewells = [greeting_pattern, thanks_pattern, farewell_pattern]"

definition question_mark_pattern :: jsregex where
  "question_mark_pattern = RegExp (Cat [Plus Dot, Lit ''?'', Eol]) False False"

definition full_sentence_patterns :: "jsregex list" where
  "full_sentence_patterns = complete_appointment_requests @ complete_information_requests
     @ complete_modifications @ complete_medical_queries"

definition patterns_complete :: "jsregex list" where
  "patterns_complete = full_sentence_patterns @ greetings_farewells @ [question_mark_pattern]"

definition patterns_intents :: "(string \<times> jsregex) list" where
  "patterns_intents =
    [(''appointment'', RegExp (Words [''turno'', ''cita'', ''agendar'', ''reservar'', ''solicitar'', ''pedir'']) True False),
     (''cancellation'', RegExp (Words [''cancelar'', ''anular'', ''eliminar'', ''quitar'']) True False),
     (''modification'', RegExp (Words [''cambiar'', ''modificar'', ''reagendar'', ''mover'', ''reprogramar'']) True False),
     (''information'', RegExp (Alt [Lit ''precio'', Lit ''costo'', Lit ''tarifa'', Lit ''horario'', Lit ''ubicacion'',
         Lit ''direccion'', Cat [Lit ''obra'', Opt (Lit ''s''), Lit '' social''], Lit ''prepaga'']) True False),
     (''medical_query'', RegExp (Words [''dolor'', ''duele'', ''molestia'', ''sintoma'', ''enferm'', ''salud'', ''medicina'']) True False),
     (''greeting'', RegExp (Words [''hola'', ''buenos'', ''buenas'', ''buen dia'']) True False),
     (''farewell'', RegExp (Words [''gracias'', ''chau'', ''hasta luego'', ''adios'', ''nos vemos'']) True False),
     (''confirmation'', RegExp (Words [''si'', ''ok'', ''perfecto'', ''excelente'', ''listo'', ''bien'', ''dale'']) True False),
     (''negation'', RegExp (Words [''no'', ''nunca'', ''jamas'', ''para nada'', ''de ninguna manera'']) True False)]"

definition patterns_entities :: "(string \<times> jsregex) list" where
  "patterns_entities =
    [(''dni'', RegExp (Cat [WordBoundary, Rep 7 (Some 8) (Cls [Digit]), WordBoundary]) False True),
     (''date'', RegExp (Cat [WordBoundary, Rep 1 (Some 2) (Cls [Digit]), Cls [Ch CHR ''/'', Ch CHR ''-''],
         Rep 1 (Some 2) (Cls [Digit]), Cls [Ch CHR ''/'', Ch CHR ''-''],
         Alt [Rep 2 (Some 2) (Cls [Digit]), Rep 4 (Some 4) (Cls [Digit])], WordBoundary]) False True),
     (''time'', RegExp (Cat [WordBoundary, Rep 1 (Some 2) (Cls [Digit]), Lit '':'', Rep 2 (Some 2) (Cls [Digit]),
         Opt (Cat [Star (Cls [White]), Words [''am'', ''pm'']]), WordBoundary]) True True),
     (''phone'', RegExp (Cat [WordBoundary, Opt (Cat [Lit ''+54'', Opt (Cls [White])]),
         Opt (Cat [Rep 2 (Some 4) (Cls [Digit]), Opt (Cls [Ch CHR ''-'', White])]),
         Rep 6 (Some 8) (Cls [Digit]), WordBoundary]) False True),
     (''age'', RegExp (Cat [WordBoundary, Rep 1 (Some 3) (Cls [Digit]), Star (Cls [White]),
         Alt [Cat [Lit (''a'' @ [enye] @ ''o''), Opt (Lit ''s'')], Lit ''year'', Lit ''years old''], WordBoundary]) True True),
     (''insurance'', RegExp (Cat [WordBoundary, Words [''osde'', ''swiss medical'', ''galeno'', ''medicus'', ''sancor'',
         ''federada'', ''ioma'', ''pami''], WordBoundary]) True True),
     (''specialties'', RegExp (Cat [WordBoundary, Words [''clinica'', ''cardiolog'', ''dermatolog'', ''ginecolog'',
         ''pediatr'', ''psicolog'', ''traumatolog'', ''oftalmolog''], Star (Cls [Word])]) True True),
     (''symptoms'', RegExp (Cat [WordBoundary, Words [''dolor'', ''fiebre'', ''tos'', ''dolor de cabeza'', ''nauseas'',
         ''mareo''], WordBoundary]) True True)]"

section \<open>The semantic analyzer\<close>

text \<open>
  The analyzer that consumes the patterns (\<open>nodes/semantic-analyzer.js\<close>, which the setup
  script requires) is not among the sources. The definitions of this section are modelled
  from section 4.1 of the specification, over the pattern tables of the medical
  configuration above.
\<close>

datatype completeness = FRAGMENT | COMPLETE

datatype intent = Intent string | UNKNOWN

text \<open>
  Modelled from the spec: the analyzer's normalisation, step 1 of section 4.1: trim, and
  lower case for matching.
\<close>

definition normalize :: "string \<Rightarrow> string" where
  "normalize text = toLowerCase (trim text)"

definition matches_any :: "jsregex list \<Rightarrow> string \<Rightarrow> bool" where
  "matches_any ps t = list_ex (\<lambda>p. regex_test p t) ps"

text \<open>
  Modelled from the spec: the analyzer's completeness decision, steps 2 and 3 of section
  4.1: the ordered \<open>complete\<close> patterns first, a match gives COMPLETE; otherwise the
  \<open>fragments\<close> patterns, a match gives FRAGMENT; otherwise COMPLETE.
\<close>

definition classify_completeness :: "jsregex list \<Rightarrow> jsregex list \<Rightarrow> string \<Rightarrow> completeness" where
  "classify_completeness completes frags text =
     (let t = normalize text
      in if matches_any completes t then COMPLETE
         else if matches_any frags t then FRAGMENT
         else COMPLETE)"

text \<open>
  Modelled from the spec: the analyzer's intent detection, step 4 of section 4.1, as a
  first-match-wins pass over the entries of the \<open>intents\<close> mapping in their enumeration
  order.
\<close>

fun detect_intent :: "(string \<times> jsregex) list \<Rightarrow> string \<Rightarrow> intent" where
  "detect_intent [] t = UNKNOWN"
| "detect_intent ((name, p) # rest) t = (if regex_test p t then Intent name else detect_intent rest t)"

text \<open>
  Modelled from the spec: the fixed priority order of step 4, and intent detection that
  follows it: the first intent of the priority order whose pattern in the mapping matches.
\<close>

definition intent_priority :: "string list" where
  "intent_priority = [''appointment'', ''cancellation'', ''modification'', ''information'', ''medical_query'',
     ''greeting'', ''farewell'', ''confirmation'', ''negation'']"

fun intent_by_priority :: "string list \<Rightarrow> (string \<times> jsregex) list \<Rightarrow> string \<Rightarrow> intent" where
  "intent_by_priority [] mapping t = UNKNOWN"
| "intent_by_priority (name # names) mapping t =
     (case map_of mapping name of
        Some p \<Rightarrow> if regex_test p t then Intent name else intent_by_priority names mapping t
      | None \<Rightarrow> intent_by_priority names mapping t)"

text \<open>
  Modelled from the spec: the analyzer's entity extraction, step 5 of section 4.1: one
  scan of the text per entity kind, every match added to the set of that kind (a list
  without duplicates).
\<close>

definition extract_entities :: "(string \<times> jsregex) list \<Rightarrow> string \<Rightarrow> (string \<times> string list) list" where
  "extract_entities ents text = map (\<lambda>(kind, p). (kind, remdups (string_match text p))) ents"

definition entity_contains :: "(string \<times> string list) list \<Rightarrow> string \<Rightarrow> string \<Rightarrow> bool" where
  "entity_contains found kind v = (case map_of found kind of Some vs \<Rightarrow> v \<in> set vs | None \<Rightarrow> False)"

text \<open>
  Modelled from the spec: the intent to urgency class table of step 6, and the texts of
  Scenario A of section 8.
\<close>

definition urgency_table :: "(string \<times> string) list" where
  "urgency_table =
     [(''appointment'', ''URGENT''), (''cancellation'', ''URGENT''), (''modification'', ''URGENT''),
      (''information'', ''SIMPLE''), (''greeting'', ''SIMPLE''), (''farewell'', ''SIMPLE''),
      (''confirmation'', ''SIMPLE''), (''negation'', ''SIMPLE''),
      (''medical_query'', ''COMPLEX''), (''UNKNOWN'', ''COMPLEX'')]"

definition scenarioA_first :: string where
  "scenarioA_first = ''quiero un turno''"

definition scenarioA_text :: string where
  "scenarioA_text = ''quiero un turno para ma'' @ [enye] @ ''ana en la ma'' @ [enye] @ ''ana''"

definition manana :: string where
  "manana = ''ma'' @ [enye] @ ''ana''"

text \<open>The position of the first occurrence of an element, as \<open>Array.prototype.indexOf\<close>.\<close>

fun index_from :: "nat \<Rightarrow> 'a \<Rightarrow> 'a list \<Rightarrow> nat option" where
  "index_from i a [] = None"
| "index_from i a (x # xs) = (if x = a then Some i else index_from (i + 1) a xs)"

definition indexOf :: "'a list \<Rightarrow> 'a \<Rightarrow> nat option" where
  "indexOf xs a = index_from 0 a xs"

definition listed_before :: "'a list \<Rightarrow> 'a \<Rightarrow> 'a \<Rightarrow> bool" where
  "listed_before xs a b =
     (case (indexOf xs a, indexOf xs b) of (Some i, Some j) \<Rightarrow> i < j | _ \<Rightarrow> False)"

section \<open>JavaScript values\<close>

text \<open>
  The values that a configuration module exports and that \<open>JSON.parse\<close> returns. A number
  is a finite value, written as the decimal literal of the source, or one of \<open>NaN\<close> and the
  two infinities. An object is the list of its own properties in enumeration order, with
  distinct keys. Functions and symbols are not modelled.
\<close>

datatype jsnum = Fin rat | NaN | PosInfinity | NegInfinity

datatype jsval =
    JUndefined
  | JNull
  | JBool bool
  | JNum jsnum
  | JStr string
  | JRegExp jsregex
  | JArray "jsval list"
  | JObject "(string \<times> jsval) list"

abbreviation JInt :: "rat \<Rightarrow> jsval" where "JInt n \<equiv> JNum (Fin n)"

fun truthy :: "jsval \<Rightarrow> bool" where
  "truthy JUndefined = False"
| "truthy JNull = False"
| "truthy (JBool b) = b"
| "truthy (JNum n) = (case n of Fin q \<Rightarrow> q \<noteq> 0 | NaN \<Rightarrow> False | _ \<Rightarrow> True)"
| "truthy (JStr s) = (s \<noteq> [])"
| "truthy _ = True"

fun typeof :: "jsval \<Rightarrow> string" where
  "typeof JUndefined = ''undefined''"
| "typeof (JBool b) = ''boolean''"
| "typeof (JNum n) = ''number''"
| "typeof (JStr s) = ''string''"
| "typeof _ = ''object''"

fun isArray :: "jsval \<Rightarrow> bool" where
  "isArray (JArray vs) = True"
| "isArray _ = False"

text \<open>\<open>typeof v === 'number' && v > 0\<close>.\<close>

definition positive_number :: "jsval \<Rightarrow> bool" where
  "positive_number v = (case v of JNum (Fin q) \<Rightarrow> 0 < q | JNum PosInfinity \<Rightarrow> True | _ \<Rightarrow> False)"

text \<open>
  The own enumerable properties of a value, as \<open>Object.keys\<close> and object spread see them:
  the properties of an object, the indices of an array or of a string.
\<close>

definition indexed :: "'a list \<Rightarrow> (string \<times> 'a) list" where
  "indexed xs = zip (map show_nat [0..<length xs]) xs"

fun own_entries :: "jsval \<Rightarrow> (string \<times> jsval) list" where
  "own_entries (JObject kvs) = kvs"
| "own_entries (JArray vs) = indexed vs"
| "own_entries (JStr s) = indexed (map (\<lambda>c. JStr [c]) s)"
| "own_entries _ = []"

fun length_prop :: "jsval \<Rightarrow> (string \<times> jsval) list" where
  "length_prop (JArray vs) = [(''length'', JNum (Fin (of_nat (length vs))))]"
| "length_prop (JStr s) = [(''length'', JNum (Fin (of_nat (length s))))]"
| "length_prop _ = []"

text \<open>
  Property access \<open>v[k]\<close>. On \<open>undefined\<close> and \<open>null\<close> it throws a TypeError (\<open>Inl\<close>, with
  the message of V8); a property that is absent reads as \<open>undefined\<close>. Inherited
  properties are not modelled: the validator reads none.
\<close>

definition read_prop :: "jsval \<Rightarrow> string \<Rightarrow> jsval" where
  "read_prop v k = (case map_of (own_entries v @ length_prop v) k of Some x \<Rightarrow> x | None \<Rightarrow> JUndefined)"

definition get :: "jsval \<Rightarrow> string \<Rightarrow> string + jsval" where
  "get v k =
     (case v of
        JUndefined \<Rightarrow> Inl (''Cannot read properties of undefined (reading '' @ quoted k @ '')'')
      | JNull \<Rightarrow> Inl (''Cannot read properties of null (reading '' @ quoted k @ '')'')
      | _ \<Rightarrow> Inr (read_prop v k))"

fun get_path :: "jsval \<Rightarrow> string list \<Rightarrow> string + jsval" where
  "get_path v [] = Inr v"
| "get_path v (k # ks) = (case get v k of Inl e \<Rightarrow> Inl e | Inr x \<Rightarrow> get_path x ks)"

text \<open>Every value that occurs in a value, itself included.\<close>

fun subvalues :: "jsval \<Rightarrow> jsval list" where
  "subvalues (JArray vs) = JArray vs # concat (map subvalues vs)"
| "subvalues (JObject kvs) = JObject kvs # concat (map (\<lambda>kv. subvalues (snd kv)) kvs)"
| "subvalues v = [v]"

text \<open>\<open>process.env.NAME\<close>: a string, or \<open>undefined\<close> when the variable is not set.\<close>

definition env_value :: "(string \<Rightarrow> string option) \<Rightarrow> string \<Rightarrow> jsval" where
  "env_value env name = (case env name of Some s \<Rightarrow> JStr s | None \<Rightarrow> JUndefined)"

section \<open>The medical configuration object\<close>

text \<open>
  \<open>module.exports\<close> of the medical configuration, section by section. Two sections read
  \<open>process.env\<close> when the module is loaded, so the object depends on the environment.
\<close>

definition semantic_section :: jsval where
  "semantic_section = JObject
     [(''patterns'', JObject
        [(''fragments'', JArray (map JRegExp patterns_fragments)),
         (''complete'', JArray (map JRegExp patterns_complete)),
         (''intents'', JObject (map (\<lambda>(k, p). (k, JRegExp p)) patterns_intents)),
         (''entities'', JObject (map (\<lambda>(k, p). (k, JRegExp p)) patterns_entities))])]"

definition timing_section :: jsval where
  "timing_section = JObject
     [(''profiles'', JObject
        [(''aggressive'', JObject [(''urgent'', JInt 1500), (''simple'', JInt 2000), (''complex'', JInt 3000),
                                   (''maxBuffer'', JInt 2)]),
         (''balanced'', JObject [(''urgent'', JInt 2000), (''simple'', JInt 3000), (''complex'', JInt 4000),
                                 (''maxBuffer'', JInt 3)]),
         (''conservative'', JObject [(''urgent'', JInt 3000), (''simple'', JInt 4000), (''complex'', JInt 6000),
                                     (''maxBuffer'', JInt 4)])])]"

definition buffer_section :: jsval where
  "buffer_section = JObject
     [(''ttl'', JInt 300), (''maxSize'', JInt 10), (''maxSizeKB'', JInt 50),
      (''cleanupInterval'', JInt 60), (''slidingTTL'', JBool True)]"

definition circuitBreaker_section :: jsval where
  "circuitBreaker_section = JObject
     [(''redis'', JObject [(''threshold'', JInt 3), (''timeout'', JInt 30000), (''resetTimeout'', JInt 60000)]),
      (''ml'', JObject [(''threshold'', JInt 2), (''timeout'', JInt 60000), (''resetTimeout'', JInt 300000)])]"

definition alert_triggers :: jsval where
  "alert_triggers = JArray
     [JObject [(''name'', JStr ''redis_down''), (''condition'', JStr ''redis_failures > 3 in 3min''),
               (''severity'', JStr ''critical'')],
      JObject [(''name'', JStr ''high_buffer_overflow''), (''condition'', JStr ''buffer_overflow_rate > 5% in 5min''),
               (''severity'', JStr ''warning'')],
      JObject [(''name'', JStr ''high_fallback_rate''), (''condition'', JStr ''fallback_rate > 10% in 10min''),
               (''severity'', JStr ''warning'')],
      JObject [(''name'', JStr ''slow_response_time''), (''condition'', JStr ''avg_response_time > 10s in 5min''),
               (''severity'', JStr ''warning'')]]"

definition metrics_section :: "(string \<Rightarrow> string option) \<Rightarrow> jsval" where
  "metrics_section env = JObject
     [(''retention'', JObject [(''realtime'', JInt 300), (''aggregated'', JInt 604800), (''alerts'', JInt 86400)]),
      (''tracking'', JObject
         [(''responseTime'', JBool True), (''bufferUtilization'', JBool True),
          (''intentDistribution'', JBool True), (''entityExtraction'', JBool True),
          (''fallbackUsage'', JBool True), (''samplingRate'', JNum (Fin 1.0))]),
      (''alerts'', JObject
         [(''enabled'', JBool True),
          (''webhook'', env_value env ''ALERT_WEBHOOK_URL''),
          (''triggers'', alert_triggers)])]"

definition ml_section :: "(string \<Rightarrow> string option) \<Rightarrow> jsval" where
  "ml_section env = JObject
     [(''enabled'', JBool False),
      (''fallbackToRegex'', JBool True),
      (''endpoints'', JObject
         [(''intent'', env_value env ''ML_INTENT_ENDPOINT''),
          (''entity'', env_value env ''ML_ENTITY_ENDPOINT''),
          (''sentiment'', env_value env ''ML_SENTIMENT_ENDPOINT'')]),
      (''timeouts'', JObject [(''intent'', JInt 2000), (''entity'', JInt 1500), (''sentiment'', JInt 1000)]),
      (''confidence'', JObject [(''minThreshold'', JNum (Fin 0.7)), (''fallbackThreshold'', JNum (Fin 0.5))])]"

definition security_section :: jsval where
  "security_section = JObject
     [(''rateLimiting'', JObject
         [(''enabled'', JBool True), (''windowMs'', JInt 60000), (''maxRequests'', JInt 30),
          (''skipSuccessfulRequests'', JBool False)]),
      (''dataRetention'', JObject [(''bufferData'', JInt 86400), (''metrics'', JInt 604800), (''logs'', JInt 259200)])]"

definition validation_section :: jsval where
  "validation_section = JObject
     [(''required'', JArray [JStr ''redis.url'']),
      (''rules'', JObject
         [(''timing.profiles.balanced.urgent'', JObject [(''type'', JStr ''number''), (''min'', JInt 1000), (''max'', JInt 10000)]),
          (''buffer.ttl'', JObject [(''type'', JStr ''number''), (''min'', JInt 60), (''max'', JInt 3600)]),
          (''buffer.maxSize'', JObject [(''type'', JStr ''number''), (''min'', JInt 1), (''max'', JInt 20)])])]"

definition medical_config :: "(string \<Rightarrow> string option) \<Rightarrow> jsval" where
  "medical_config env = JObject
     [(''name'', JStr ''Medical/Healthcare Configuration''),
      (''version'', JStr ''1.0.0''),
      (''description'', JStr ''Semantic patterns and timing optimized for medical consultations''),
      (''semantic'', semantic_section),
      (''timing'', timing_section),
      (''buffer'', buffer_section),
      (''circuitBreaker'', circuitBreaker_section),
      (''metrics'', metrics_section env),
      (''ml'', ml_section env),
      (''security'', security_section),
      (''validation'', validation_section)]"

text \<open>
  Four closed parts of the two sections that read the environment, named so that they
  can be examined apart from the environment (lemmas \<open>metrics_section_parts\<close> and
  \<open>ml_section_parts\<close>).
\<close>

definition metrics_retention :: jsval where
  "metrics_retention = JObject [(''realtime'', JInt 300), (''aggregated'', JInt 604800), (''alerts'', JInt 86400)]"

definition metrics_tracking :: jsval where
  "metrics_tracking = JObject
     [(''responseTime'', JBool True), (''bufferUtilization'', JBool True),
      (''intentDistribution'', JBool True), (''entityExtraction'', JBool True),
      (''fallbackUsage'', JBool True), (''samplingRate'', JNum (Fin 1.0))]"

definition ml_timeouts :: jsval where
  "ml_timeouts = JObject [(''intent'', JInt 2000), (''entity'', JInt 1500), (''sentiment'', JInt 1000)]"

definition ml_confidence :: jsval where
  "ml_confidence = JObject [(''minThreshold'', JNum (Fin 0.7)), (''fallbackThreshold'', JNum (Fin 0.5))]"

subsection \<open>Where a configuration names intents and urgency classes\<close>

text \<open>
  A text names an intent, or an urgency class, when it contains the name as a substring,
  without regard to case: \<open>urgentIntents\<close> names a class, \<open>Appointment\<close> an intent. The intent
  names are those of the table of the specification, \<open>UNKNOWN\<close> included.
\<close>

definition intent_names :: "string list" where
  "intent_names = ''unknown'' # intent_priority"

definition urgency_names :: "string list" where
  "urgency_names = [''urgent'', ''simple'', ''complex'']"

definition names_intent :: "string \<Rightarrow> bool" where
  "names_intent s = (let l = toLowerCase s in list_ex (string_includes l) intent_names)"

definition names_urgency :: "string \<Rightarrow> bool" where
  "names_urgency s = (let l = toLowerCase s in list_ex (string_includes l) urgency_names)"

definition names_either :: "string \<Rightarrow> bool" where
  "names_either s \<longleftrightarrow> names_intent s \<or> names_urgency s"

text \<open>The literal texts of a pattern.\<close>

primrec regex_literals :: "regex \<Rightarrow> string list" where
  "regex_literals (Lit cs) = [cs]"
| "regex_literals Dot = []"
| "regex_literals (Cls as) = []"
| "regex_literals Bol = []"
| "regex_literals Eol = []"
| "regex_literals WordBoundary = []"
| "regex_literals (Cat rs) = concat (map regex_literals rs)"
| "regex_literals (Alt rs) = concat (map regex_literals rs)"
| "regex_literals (Rep lo hi r) = regex_literals r"

text \<open>
  \<open>mentions_deep P v\<close>: somewhere in \<open>v\<close>, at any depth, a property key, a string or a
  literal text of a regular expression satisfies \<open>P\<close>. \<open>leafy P v\<close>: \<open>v\<close> itself is such a
  string, or an array with such a string among its elements.
\<close>

fun mentions_deep :: "(string \<Rightarrow> bool) \<Rightarrow> jsval \<Rightarrow> bool" where
  "mentions_deep P (JStr s) = P s"
| "mentions_deep P (JRegExp re) = list_ex P (regex_literals (source re))"
| "mentions_deep P (JArray vs) = list_ex (\<lambda>b. b) (map (mentions_deep P) vs)"
| "mentions_deep P (JObject kvs) = list_ex (\<lambda>b. b) (map (\<lambda>kv. P (fst kv) \<or> mentions_deep P (snd kv)) kvs)"
| "mentions_deep P _ = False"

fun leafy :: "(string \<Rightarrow> bool) \<Rightarrow> jsval \<Rightarrow> bool" where
  "leafy P (JStr s) = P s"
| "leafy P (JArray vs) = list_ex (\<lambda>v. case v of JStr s \<Rightarrow> P s | _ \<Rightarrow> False) vs"
| "leafy P _ = False"

text \<open>The members of a value: the properties of an object, the elements of an array.\<close>

fun members :: "jsval \<Rightarrow> (string \<times> jsval) list" where
  "members (JObject kvs) = kvs"
| "members (JArray vs) = map (Pair []) vs"
| "members _ = []"

text \<open>
  What it means for a configuration to carry the urgency table as data, in any shape.
  A value holds a table when one of its members, key and value taken together, names
  both an intent and an urgency class: a property keyed by an intent with the class as
  value or anywhere below it, a property keyed by a class (or by a name such as
  \<open>urgentIntents\<close>) with intents below it, a nested rule object, a row object or row
  array inside a list of rows; or when it is itself a row or a pair of parallel lists:
  one member is a string or list of strings naming an intent and one names a class.
  A configuration contains a table when any value in it holds one. One relation between
  one intent and one class is enough, so that containing no table is the strongest form.
  The one shape this does not count is the whole configuration with intents in one
  top-level section and classes in another, unrelated: that is what \<open>key_paths\<close> and
  \<open>string_values\<close> below are for.
\<close>

definition holds_table :: "jsval \<Rightarrow> bool" where
  "holds_table v =
     (list_ex (\<lambda>(k, x). (names_intent k \<or> mentions_deep names_intent x)
                        \<and> (names_urgency k \<or> mentions_deep names_urgency x)) (members v)
      \<or> (list_ex (\<lambda>(k, x). leafy names_intent x) (members v)
           \<and> list_ex (\<lambda>(k, x). leafy names_urgency x) (members v)))"

definition contains_urgency_table :: "jsval \<Rightarrow> bool" where
  "contains_urgency_table cfg = list_ex holds_table (subvalues cfg)"

text \<open>
  The paths of the property keys that satisfy \<open>P\<close> (array elements are stepped through by
  index), and the string values of a value, in order.
\<close>

fun key_paths :: "(string \<Rightarrow> bool) \<Rightarrow> jsval \<Rightarrow> string list list" where
  "key_paths P (JObject kvs) =
     concat (map (\<lambda>kv. (if P (fst kv) then [[fst kv]] else []) @ map ((#) (fst kv)) (key_paths P (snd kv))) kvs)"
| "key_paths P (JArray vs) = concat (map (\<lambda>(i, ps). map ((#) i) ps) (indexed (map (key_paths P) vs)))"
| "key_paths P _ = []"

fun string_values :: "jsval \<Rightarrow> string list" where
  "string_values (JStr s) = [s]"
| "string_values (JArray vs) = concat (map string_values vs)"
| "string_values (JObject kvs) = concat (map (\<lambda>kv. string_values (snd kv)) kvs)"
| "string_values _ = []"

text \<open>
  The four strings that the medical configuration takes from the environment, those that
  are set, in the order in which the module reads them; and an environment in which none
  of them names an intent or an urgency class.
\<close>

definition env_strings :: "(string \<Rightarrow> string option) \<Rightarrow> string list" where
  "env_strings ev = concat (map (\<lambda>name. case ev name of Some s \<Rightarrow> [s] | None \<Rightarrow> [])
     [''ALERT_WEBHOOK_URL'', ''ML_INTENT_ENDPOINT'', ''ML_ENTITY_ENDPOINT'', ''ML_SENTIMENT_ENDPOINT''])"

definition env_clean :: "(string \<Rightarrow> string option) \<Rightarrow> bool" where
  "env_clean ev \<longleftrightarrow> filter names_either (env_strings ev) = []"

text \<open>A value in which nothing names an intent or an urgency class.\<close>

definition plain :: "jsval \<Rightarrow> bool" where
  "plain v \<longleftrightarrow> \<not> list_ex holds_table (subvalues v) \<and> \<not> mentions_deep names_intent v
     \<and> \<not> mentions_deep names_urgency v \<and> filter names_either (string_values v) = []
     \<and> key_paths names_intent v = [] \<and> key_paths names_urgency v = []"

text \<open>
  Tables in the shapes a configuration might give them: intent to class, class to a list
  of intents, a list of rows, a nested rule, and a property that lists the urgent intents.
\<close>

definition table_shapes :: "jsval list" where
  "table_shapes =
     [JObject [(''urgency'', JObject [(''appointment'', JStr ''URGENT''), (''greeting'', JStr ''SIMPLE'')])],
      JObject [(''urgencyClasses'', JObject [(''URGENT'', JArray [JStr ''appointment'', JStr ''cancellation''])])],
      JObject [(''rows'', JArray [JObject [(''intent'', JStr ''appointment''), (''class'', JStr ''URGENT'')]])],
      JObject [(''rows'', JArray [JArray [JStr ''appointment'', JStr ''URGENT'']])],
      JObject [(''rules'', JObject [(''appointment'', JObject [(''timing'', JObject [(''class'', JStr ''urgent'')])])])],
      JObject [(''urgentIntents'', JArray [JStr ''appointment'', JStr ''modification''])],
      JObject [(''intents'', JArray [JStr ''appointment'']), (''classes'', JArray [JStr ''URGENT''])],
      JObject [(''urgent'', JRegExp (RegExp (Words [''appointment'', ''cancellation'']) True False))]]"

section \<open>The environment template\<close>

text \<open>
  The assignments of \<open>.env.example\<close> in the order of the file, as \<open>dotenv\<close> reads them
  (comment lines and blank lines dropped; an empty right-hand side is the empty string).
\<close>

definition env_example :: "(string \<times> string) list" where
  "env_example =
     [(''REDIS_URL'', ''redis://localhost:6379''), (''REDIS_PASSWORD'', []), (''REDIS_DB'', ''0''),
      (''N8N_HOST'', ''localhost''), (''N8N_PORT'', ''5678''), (''N8N_PROTOCOL'', ''http''),
      (''SMART_BUFFER_CONFIG'', ''medical''), (''SMART_BUFFER_DEBUG'', ''false''),
      (''BUFFER_TTL'', ''300''), (''BUFFER_MAX_SIZE'', ''3''), (''BUFFER_MAX_SIZE_KB'', ''50''),
      (''TIMING_URGENT'', ''2000''), (''TIMING_SIMPLE'', ''3000''), (''TIMING_COMPLEX'', ''4000''),
      (''CIRCUIT_BREAKER_REDIS_THRESHOLD'', ''3''), (''CIRCUIT_BREAKER_REDIS_TIMEOUT'', ''30000''),
      (''CIRCUIT_BREAKER_ML_THRESHOLD'', ''2''), (''CIRCUIT_BREAKER_ML_TIMEOUT'', ''60000''),
      (''ML_ENABLED'', ''false''), (''ML_SERVICE_URL'', []), (''ML_API_KEY'', []),
      (''ML_MODEL_NAME'', ''consultorio-intent-v1''), (''ML_TIMEOUT'', ''2000''),
      (''METRICS_ENABLED'', ''true''), (''METRICS_RETENTION_REALTIME'', ''300''),
      (''METRICS_RETENTION_AGGREGATED'', ''604800''),
      (''ALERTS_ENABLED'', ''true''), (''ALERT_WEBHOOK_URL'', []), (''ALERT_SLACK_TOKEN'', []),
      (''ALERT_TELEGRAM_BOT_TOKEN'', []), (''ALERT_TELEGRAM_CHAT_ID'', []),
      (''DASHBOARD_ENABLED'', ''true''), (''DASHBOARD_PORT'', ''3000''), (''DASHBOARD_AUTH_REQUIRED'', ''false''),
      (''DASHBOARD_USERNAME'', ''admin''), (''DASHBOARD_PASSWORD'', []),
      (''NODE_ENV'', ''development''), (''LOG_LEVEL'', ''info''), (''DEBUG_SEMANTIC_ANALYSIS'', ''false''),
      (''DEBUG_TIMING_DECISIONS'', ''false''), (''DEBUG_BUFFER_OPERATIONS'', ''false''),
      (''MAX_CONCURRENT_BUFFERS'', ''100''), (''CLEANUP_INTERVAL'', ''60000''), (''HEALTH_CHECK_INTERVAL'', ''30000''),
      (''RATE_LIMIT_ENABLED'', ''true''), (''RATE_LIMIT_WINDOW'', ''60000''), (''RATE_LIMIT_MAX_REQUESTS'', ''100''),
      (''INDUSTRY_CONFIG'', ''medical''), (''CUSTOM_CONFIG_PATH'', ''./config/my-custom-config.js'')]"

section \<open>The configuration validator\<close>

subsection \<open>State and \<open>check\<close>\<close>

text \<open>
  \<open>validate_config_script.js\<close>, class \<open>ConfigValidator\<close>. The constructor sets
  \<open>errors = []\<close>, \<open>warnings = []\<close>, \<open>checks = 0\<close>, \<open>passed = 0\<close>. Every method mutates
  these four fields; the model passes the object explicitly and returns it updated.

  Console output is not modelled: \<open>log\<close> only prints, and no field of the validator, no
  return value and no exit status depends on what was printed. The parameter
  \<open>successMsg\<close> of \<open>check\<close> only reaches \<open>log\<close> and is left out; where evaluating that
  argument can throw (the template literal that reads \<open>template.nodes.length\<close>), the throw
  is modelled at the call.
\<close>

record validator =
  errors :: "string list"
  warnings :: "string list"
  checks :: nat
  passed :: nat

definition new_ConfigValidator :: validator where
  "new_ConfigValidator = \<lparr>errors = [], warnings = [], checks = 0, passed = 0\<rparr>"

text \<open>
  \<open>check(condition, successMsg, errorMsg, isWarning = false)\<close>: \<open>condition\<close> is the
  truthiness of the first argument. \<open>checks++\<close> and \<open>passed++\<close> update a counter in
  place, \<open>push\<close> appends at the end of a list.
\<close>

definition check :: "bool \<Rightarrow> string \<Rightarrow> bool \<Rightarrow> validator \<Rightarrow> bool \<times> validator" where
  "check condition errorMsg isWarning this =
     (let this1 = checks_update (\<lambda>checks. checks + 1) this
      in if condition then (True, passed_update (\<lambda>passed. passed + 1) this1)
         else if isWarning then (False, warnings_update (\<lambda>warnings. warnings @ [errorMsg]) this1)
         else (False, errors_update (\<lambda>errors. errors @ [errorMsg]) this1))"

text \<open>Every caller in the script drops the returned boolean.\<close>

definition checked :: "bool \<Rightarrow> string \<Rightarrow> bool \<Rightarrow> validator \<Rightarrow> validator" where
  "checked condition errorMsg isWarning this = snd (check condition errorMsg isWarning this)"

text \<open>The bookkeeping invariant that \<open>check\<close> maintains.\<close>

definition tally_ok :: "validator \<Rightarrow> bool" where
  "tally_ok this \<longleftrightarrow> checks this = passed this + length (errors this) + length (warnings this)"

subsection \<open>What the validator observes\<close>

text \<open>
  The validator reads the process environment, the file system, a Redis server, the
  configuration module and two JSON files. The model takes these observations as a
  record: what each call of the script returns or throws in the world it runs in.
  \<^item> \<open>cwd\<close>: \<open>process.cwd()\<close>, or \<open>None\<close> when it throws (the directory is gone);
  \<^item> \<open>env\<close>: \<open>process.env\<close> after \<open>dotenv\<close> has loaded the file \<open>.env\<close>;
  \<^item> \<open>existsSync\<close>: \<open>fs.existsSync\<close>;
  \<^item> \<open>redis\<close>: how the session with the server at \<open>REDIS_URL\<close> goes;
  \<^item> \<open>require_config\<close>: \<open>require(configPath)\<close>, the exported value or the message of
    the error thrown while loading (a malformed regular expression literal in the module
    is a SyntaxError here);
  \<^item> \<open>RegExp_throws\<close>: the message of the SyntaxError that \<open>new RegExp(pattern)\<close>
    throws, if it throws;
  \<^item> \<open>read_json\<close>: \<open>JSON.parse(fs.readFileSync(path, 'utf8'))\<close>, the value or the message
    of the error thrown.
  The functions of the file system and \<open>require\<close> are keyed by the path that
  \<open>path.join\<close> returns.
\<close>

datatype redis_session =
    Connect_fails string
  | Ttl_fails "string option" string
  | Disconnect_fails "string option" int string
  | Session_ok "string option" int

record world =
  cwd :: "string option"
  env :: "string \<Rightarrow> string option"
  existsSync :: "string \<Rightarrow> bool"
  redis :: redis_session
  require_config :: "string \<Rightarrow> string + jsval"
  RegExp_throws :: "jsval \<Rightarrow> string option"
  read_json :: "string \<Rightarrow> string + jsval"

text \<open>
  \<open>path.join\<close> in its POSIX flavour: the non-empty arguments are joined by slashes and the
  result is normalised. Normalisation splits at the slashes, drops empty segments and
  \<open>.\<close>, lets \<open>..\<close> remove the segment before it (above the root of an absolute path it is
  dropped, at the start of a relative path it is kept), and keeps a leading and a trailing
  slash. \<open>normalize_step\<close> holds the segments read so far in reverse.
\<close>

fun split_path :: "string \<Rightarrow> string list" where
  "split_path [] = [[]]"
| "split_path (c # cs) =
     (if c = CHR ''/'' then [] # split_path cs
      else (case split_path cs of segment # segments \<Rightarrow> (c # segment) # segments | [] \<Rightarrow> [[c]]))"

fun join_slash :: "string list \<Rightarrow> string" where
  "join_slash [] = []"
| "join_slash (segment # segments) = segment @ concat (map (\<lambda>s. ''/'' @ s) segments)"

definition normalize_step :: "bool \<Rightarrow> string list \<Rightarrow> string \<Rightarrow> string list" where
  "normalize_step allowAboveRoot res segment =
     (if segment = [] \<or> segment = ''.'' then res
      else if segment = ''..''
      then (case res of
              [] \<Rightarrow> if allowAboveRoot then [''..''] else []
            | lastSegment # rest \<Rightarrow>
                if lastSegment = ''..'' then (if allowAboveRoot then ''..'' # res else res) else rest)
      else segment # res)"

definition path_normalize :: "string \<Rightarrow> string" where
  "path_normalize path =
     (let isAbsolute = (take 1 path = ''/'');
          trailingSeparator = (take 1 (rev path) = ''/'');
          body = join_slash (rev (foldl (normalize_step (\<not> isAbsolute)) [] (split_path path)))
      in if body = [] then (if isAbsolute then ''/'' else if trailingSeparator then ''./'' else ''.'')
         else (if isAbsolute then ''/'' else []) @ body @ (if trailingSeparator then ''/'' else []))"

definition path_join :: "string list \<Rightarrow> string" where
  "path_join paths =
     (let joined = join_slash (filter (\<lambda>p. p \<noteq> []) paths)
      in if joined = [] then ''.'' else path_normalize joined)"

definition env_truthy :: "world \<Rightarrow> string \<Rightarrow> bool" where
  "env_truthy w name = truthy (env_value (env w) name)"

text \<open>
  \<open>new RegExp(pattern)\<close>: a regular expression object is copied and never throws; for any
  other value the world says whether its pattern text compiles.
\<close>

definition new_RegExp :: "world \<Rightarrow> jsval \<Rightarrow> string option" where
  "new_RegExp w pattern = (case pattern of JRegExp r \<Rightarrow> None | _ \<Rightarrow> RegExp_throws w pattern)"

subsection \<open>\<open>parseInt\<close>\<close>

text \<open>
  \<open>parseInt(string)\<close> without a radix: leading white space is skipped, then an optional
  sign, then \<open>0x\<close> or \<open>0X\<close> selects radix 16, then the longest run of digits of the radix
  is read; no digit gives \<open>NaN\<close> (\<open>None\<close>). The model keeps the exact integer where
  JavaScript rounds to a double; rounding keeps the sign of a nonzero integer, so the
  test \<open>value > 0\<close> is the same.
\<close>

definition digit_value :: "char \<Rightarrow> nat option" where
  "digit_value c =
     map_of (zip ''0123456789abcdef'' [0..<16] @ zip ''ABCDEF'' [10..<16]) c"

definition radix_digit :: "nat \<Rightarrow> char \<Rightarrow> bool" where
  "radix_digit radix c = (case digit_value c of Some d \<Rightarrow> d < radix | None \<Rightarrow> False)"

definition digits_value :: "nat \<Rightarrow> string \<Rightarrow> nat" where
  "digits_value radix ds = foldl (\<lambda>acc c. acc * radix + (case digit_value c of Some d \<Rightarrow> d | None \<Rightarrow> 0)) 0 ds"

definition parseInt :: "string \<Rightarrow> int option" where
  "parseInt string =
     (let S = dropWhile is_white string;
          negative = (take 1 S = ''-'');
          S1 = (if take 1 S = ''-'' \<or> take 1 S = ''+'' then drop 1 S else S);
          hex = (take 2 S1 = ''0x'' \<or> take 2 S1 = ''0X'');
          R = (if hex then 16 else 10);
          S2 = (if hex then drop 2 S1 else S1);
          Z = takeWhile (radix_digit R) S2
      in if Z = [] then None
         else Some (if negative then - int (digits_value R Z) else int (digits_value R Z)))"

text \<open>\<open>!isNaN(value) && value > 0\<close>.\<close>

definition positive_int :: "int option \<Rightarrow> bool" where
  "positive_int v = (case v of Some n \<Rightarrow> 0 < n | None \<Rightarrow> False)"

subsection \<open>\<open>validateEnvironment\<close>\<close>

definition requiredVars :: "string list" where
  "requiredVars = [''REDIS_URL'', ''INDUSTRY_CONFIG'']"

definition numericVars :: "string list" where
  "numericVars = [''BUFFER_TTL'', ''TIMING_URGENT'', ''TIMING_SIMPLE'', ''TIMING_COMPLEX'']"

definition redisUrlPattern :: jsregex where
  "redisUrlPattern =
     RegExp (Cat [Bol, Lit ''redis://'', Star Dot, Lit '':'', Plus (Cls [Digit]), Eol]) False False"

definition env_missing :: "string \<Rightarrow> string" where
  "env_missing varName = varName @ '' is missing in .env file''"

definition not_positive :: "string \<Rightarrow> string" where
  "not_positive varName = varName @ '' is not a valid positive number''"

definition check_required :: "world \<Rightarrow> string \<Rightarrow> validator \<Rightarrow> validator" where
  "check_required w varName this = checked (env_truthy w varName) (env_missing varName) False this"

definition check_redis_url :: "world \<Rightarrow> validator \<Rightarrow> validator" where
  "check_redis_url w this =
     (case env w ''REDIS_URL'' of
        None \<Rightarrow> this
      | Some url \<Rightarrow>
          if url = [] then this
          else checked (regex_test redisUrlPattern url)
                 ''Redis URL format is invalid (should be redis://host:port)'' True this)"

definition check_numeric :: "world \<Rightarrow> string \<Rightarrow> validator \<Rightarrow> validator" where
  "check_numeric w varName this =
     (case env w varName of
        None \<Rightarrow> this
      | Some s \<Rightarrow>
          if s = [] then this
          else (let value = parseInt s
                in checked (positive_int value) (not_positive varName) True this))"

definition validateEnvironment :: "world \<Rightarrow> validator \<Rightarrow> validator option" where
  "validateEnvironment w this =
     (case cwd w of
        None \<Rightarrow> None
      | Some dir \<Rightarrow>
          (let envPath = path_join [dir, ''.env''];
               this1 = checked (existsSync w envPath) ''.env file is missing (copy from .env.example)'' False this;
               this2 = fold (check_required w) requiredVars this1;
               this3 = check_redis_url w this2;
               this4 = fold (check_numeric w) numericVars this3
           in Some this4))"

subsection \<open>\<open>validateRedisConnection\<close>\<close>

text \<open>
  The whole session is inside one \<open>try\<close>. \<open>Connect_fails\<close>: \<open>require\<close>, the constructor,
  \<open>connect\<close>, \<open>set\<close>, \<open>get\<close> or \<open>del\<close> throws, before the first check.
  \<open>Ttl_fails testValue\<close>: \<open>get\<close> returned \<open>testValue\<close> (\<open>None\<close> is \<open>null\<close>), then \<open>setex\<close> or
  \<open>ttl\<close> throws. \<open>Disconnect_fails testValue hasTtl\<close>: both checks ran and \<open>disconnect\<close>
  throws. \<open>Session_ok testValue hasTtl\<close>: nothing throws.
\<close>

definition redis_failed :: "string \<Rightarrow> validator \<Rightarrow> validator" where
  "redis_failed message this = checked False (''Redis connection failed: '' @ message) False this"

definition check_operations :: "string option \<Rightarrow> validator \<Rightarrow> validator" where
  "check_operations testValue this = checked (testValue = Some ''validation'') ''Redis operations failed'' False this"

definition check_ttl :: "int \<Rightarrow> validator \<Rightarrow> validator" where
  "check_ttl hasTtl this = checked (hasTtl > 0) ''Redis TTL functionality failed'' False this"

definition validateRedisConnection :: "world \<Rightarrow> validator \<Rightarrow> validator" where
  "validateRedisConnection w this =
     (if \<not> env_truthy w ''REDIS_URL''
      then checked False ''Cannot test Redis - REDIS_URL not configured'' False this
      else (case redis w of
              Connect_fails message \<Rightarrow> redis_failed message this
            | Ttl_fails testValue message \<Rightarrow> redis_failed message (check_operations testValue this)
            | Disconnect_fails testValue hasTtl message \<Rightarrow>
                redis_failed message (check_ttl hasTtl (check_operations testValue this))
            | Session_ok testValue hasTtl \<Rightarrow> check_ttl hasTtl (check_operations testValue this)))"

subsection \<open>Statements inside \<open>try\<close>\<close>

text \<open>
  A block inside \<open>try\<close> either completes with the validator it has reached (\<open>Inr\<close>) or
  throws (\<open>Inl\<close>): the message of the error and the validator as it was at the throw,
  since what was recorded before stays recorded. \<open>catch\<close> hands both to the handler.
\<close>

type_synonym attempt = "(string \<times> validator) + validator"

definition and_then :: "attempt \<Rightarrow> (validator \<Rightarrow> attempt) \<Rightarrow> attempt" where
  "and_then a f = (case a of Inl thrown \<Rightarrow> Inl thrown | Inr this \<Rightarrow> f this)"

fun forEach :: "('a \<Rightarrow> validator \<Rightarrow> attempt) \<Rightarrow> 'a list \<Rightarrow> validator \<Rightarrow> attempt" where
  "forEach f [] this = Inr this"
| "forEach f (x # xs) this = and_then (f x this) (forEach f xs)"

definition reading :: "string + jsval \<Rightarrow> validator \<Rightarrow> (jsval \<Rightarrow> attempt) \<Rightarrow> attempt" where
  "reading r this f = (case r of Inl message \<Rightarrow> Inl (message, this) | Inr v \<Rightarrow> f v)"

definition try_catch :: "attempt \<Rightarrow> (string \<Rightarrow> validator \<Rightarrow> validator) \<Rightarrow> validator" where
  "try_catch a handler = (case a of Inl (message, this) \<Rightarrow> handler message this | Inr this \<Rightarrow> this)"

subsection \<open>\<open>validateConfiguration\<close>\<close>

definition requiredSections :: "string list" where
  "requiredSections = [''semantic'', ''timing'', ''buffer'', ''circuitBreaker'']"

definition check_section :: "jsval \<Rightarrow> string \<Rightarrow> validator \<Rightarrow> attempt" where
  "check_section config section_name this =
     reading (get config section_name) this
       (\<lambda>v. Inr (checked (truthy v) (''Configuration section '' @ quoted section_name @ '' is missing'') False this))"

text \<open>
  The loop over \<open>fragments\<close>: \<open>new RegExp(pattern)\<close> in its own \<open>try\<close>; a pattern that
  does not compile clears \<open>validPatterns\<close> and pushes onto \<open>errors\<close> directly, without
  \<open>check\<close>.
\<close>

fun compile_fragments :: "world \<Rightarrow> jsval list \<Rightarrow> nat \<Rightarrow> bool \<times> validator \<Rightarrow> bool \<times> validator" where
  "compile_fragments w [] index acc = acc"
| "compile_fragments w (pattern # rest) index (validPatterns, this) =
     compile_fragments w rest (index + 1)
       (case new_RegExp w pattern of
          None \<Rightarrow> (validPatterns, this)
        | Some message \<Rightarrow>
            (False, errors_update (\<lambda>errors. errors
                @ [''Invalid regex in fragments['' @ show_nat index @ '']: '' @ message]) this))"

text \<open>
  \<open>config.semantic.patterns.fragments.forEach\<close> exists on an array only: on \<open>undefined\<close>
  and \<open>null\<close> the property access throws, on any other value the call does.
\<close>

definition validate_patterns :: "world \<Rightarrow> jsval \<Rightarrow> validator \<Rightarrow> attempt" where
  "validate_patterns w patterns this =
     (let fragments = read_prop patterns ''fragments'';
          this1 = checked (isArray fragments) ''Fragment patterns should be an array'' False this;
          this2 = checked (isArray (read_prop patterns ''complete'')) ''Complete patterns should be an array'' False this1
      in case fragments of
           JArray ps \<Rightarrow>
             (case compile_fragments w ps 0 (True, this2) of
                (validPatterns, this3) \<Rightarrow>
                  Inr (checked validPatterns ''Some fragment patterns have invalid regex syntax'' False this3))
         | JUndefined \<Rightarrow> Inl (''Cannot read properties of undefined (reading '' @ quoted ''forEach'' @ '')'', this2)
         | JNull \<Rightarrow> Inl (''Cannot read properties of null (reading '' @ quoted ''forEach'' @ '')'', this2)
         | _ \<Rightarrow> Inl (''config.semantic.patterns.fragments.forEach is not a function'', this2))"

definition check_timing :: "string \<Rightarrow> jsval \<Rightarrow> string \<Rightarrow> validator \<Rightarrow> attempt" where
  "check_timing profileName profile timing this =
     reading (get profile timing) this
       (\<lambda>v. Inr (checked (positive_number v)
                (''Timing '' @ quoted timing @ '' in profile '' @ quoted profileName @ '' is invalid'') False this))"

definition validate_timing :: "jsval \<Rightarrow> validator \<Rightarrow> attempt" where
  "validate_timing timing_profiles this =
     (let profiles = own_entries timing_profiles;
          this1 = checked (length profiles > 0) ''No timing profiles defined'' False this
      in forEach (\<lambda>(profileName, profile). forEach (check_timing profileName profile) [''urgent'', ''simple'', ''complex''])
           profiles this1)"

definition validate_buffer :: "jsval \<Rightarrow> validator \<Rightarrow> validator" where
  "validate_buffer buffer this =
     checked (positive_number (read_prop buffer ''maxSize'')) ''Buffer max size is invalid'' False
       (checked (positive_number (read_prop buffer ''ttl'')) ''Buffer TTL is invalid'' False this)"

text \<open>
  The body of the \<open>try\<close>. After the loop over the sections \<open>config\<close> is neither \<open>undefined\<close>
  nor \<open>null\<close>, and \<open>a && a.b\<close> reads \<open>a.b\<close> only when \<open>a\<close> is truthy, so the later reads
  (\<open>read_prop\<close>) cannot throw.
\<close>

definition config_body :: "world \<Rightarrow> string \<Rightarrow> validator \<Rightarrow> attempt" where
  "config_body w configPath this =
     (case require_config w configPath of
        Inl message \<Rightarrow> Inl (message, this)
      | Inr config \<Rightarrow>
          and_then (forEach (check_section config) requiredSections this) (\<lambda>this1.
          and_then (let semantic = read_prop config ''semantic''
                    in if truthy semantic \<and> truthy (read_prop semantic ''patterns'')
                       then validate_patterns w (read_prop semantic ''patterns'') this1
                       else Inr this1) (\<lambda>this2.
          and_then (let timing = read_prop config ''timing''
                    in if truthy timing \<and> truthy (read_prop timing ''profiles'')
                       then validate_timing (read_prop timing ''profiles'') this2
                       else Inr this2) (\<lambda>this3.
          Inr (if truthy (read_prop config ''buffer'')
               then validate_buffer (read_prop config ''buffer'') this3
               else this3)))))"

definition industryConfig :: "world \<Rightarrow> string" where
  "industryConfig w = (case env w ''INDUSTRY_CONFIG'' of
                         None \<Rightarrow> ''medical''
                       | Some name \<Rightarrow> if name = [] then ''medical'' else name)"

definition configPath :: "world \<Rightarrow> string \<Rightarrow> string" where
  "configPath w dir = path_join [dir, ''config'', industryConfig w @ ''-config.js'']"

definition validateConfiguration :: "world \<Rightarrow> validator \<Rightarrow> validator option" where
  "validateConfiguration w this =
     (case cwd w of
        None \<Rightarrow> None
      | Some dir \<Rightarrow>
          (let this1 = checked (existsSync w (configPath w dir))
                         (''Configuration file not found: '' @ configPath w dir) False this
           in if \<not> existsSync w (configPath w dir) then Some this1
              else Some (try_catch (config_body w (configPath w dir) this1)
                           (\<lambda>message. checked False (''Configuration loading failed: '' @ message) False))))"

subsection \<open>\<open>validateTemplates\<close>\<close>

definition requiredNodes :: "string list" where
  "requiredNodes = [''Semantic Analyzer'', ''Smart Orchestrator'', ''Buffer Manager'']"

text \<open>\<open>node.name || node.id\<close>, for every node in turn; reading a property of \<open>null\<close> throws.\<close>

fun node_names :: "jsval list \<Rightarrow> string + jsval list" where
  "node_names [] = Inr []"
| "node_names (node # rest) =
     (case get node ''name'' of
        Inl message \<Rightarrow> Inl message
      | Inr name \<Rightarrow>
          (case node_names rest of
             Inl message \<Rightarrow> Inl message
           | Inr names \<Rightarrow> Inr ((if truthy name then name else read_prop node ''id'') # names)))"

text \<open>
  \<open>nodeNames.some(name => name.toLowerCase().includes(needle))\<close>: \<open>some\<close> stops at the
  first name that contains the needle; a name before it that is not a string throws.
\<close>

fun some_includes :: "jsval list \<Rightarrow> string \<Rightarrow> string + bool" where
  "some_includes [] needle = Inr False"
| "some_includes (name # rest) needle =
     (case name of
        JStr s \<Rightarrow> if string_includes (toLowerCase s) needle then Inr True else some_includes rest needle
      | JUndefined \<Rightarrow> Inl (''Cannot read properties of undefined (reading '' @ quoted ''toLowerCase'' @ '')'')
      | JNull \<Rightarrow> Inl (''Cannot read properties of null (reading '' @ quoted ''toLowerCase'' @ '')'')
      | _ \<Rightarrow> Inl ''name.toLowerCase is not a function'')"

definition check_node :: "jsval list \<Rightarrow> string \<Rightarrow> validator \<Rightarrow> attempt" where
  "check_node nodeNames nodeName this =
     (case some_includes nodeNames (toLowerCase nodeName) of
        Inl message \<Rightarrow> Inl (message, this)
      | Inr hasNode \<Rightarrow> Inr (checked hasNode (''Missing required node: '' @ nodeName) True this))"

text \<open>
  The arguments of the first \<open>check\<close> are evaluated before the call: the condition
  \<open>template.nodes && Array.isArray(template.nodes)\<close>, then the success message, which
  reads \<open>template.nodes.length\<close> and throws when \<open>nodes\<close> is \<open>undefined\<close> or \<open>null\<close>.
  \<open>template.nodes.map\<close> exists on an array only.
\<close>

definition template_body :: "world \<Rightarrow> string \<Rightarrow> validator \<Rightarrow> attempt" where
  "template_body w coreTemplate this =
     reading (read_json w coreTemplate) this (\<lambda>template.
     reading (get template ''nodes'') this (\<lambda>nodes.
     reading (get nodes ''length'') this (\<lambda>nodes_length.
       (let this1 = checked (truthy nodes \<and> isArray nodes) ''Template structure is invalid'' False this;
            connections = read_prop template ''connections'';
            this2 = checked (truthy connections \<and> typeof connections = ''object'')
                      ''Template connections are missing'' False this1
        in case nodes of
             JArray ns \<Rightarrow>
               (case node_names ns of
                  Inl message \<Rightarrow> Inl (message, this2)
                | Inr nodeNames \<Rightarrow> forEach (check_node nodeNames) requiredNodes this2)
           | _ \<Rightarrow> Inl (''template.nodes.map is not a function'', this2)))))"

definition validateTemplates :: "world \<Rightarrow> validator \<Rightarrow> validator option" where
  "validateTemplates w this =
     (case cwd w of
        None \<Rightarrow> None
      | Some dir \<Rightarrow>
          (let templatesDir = path_join [dir, ''templates'', ''workflows''];
               this1 = checked (existsSync w templatesDir) ''Templates directory not found'' False this
           in if \<not> existsSync w templatesDir then Some this1
              else (let coreTemplate = path_join [templatesDir, ''buffer-core.json''];
                        this2 = checked (existsSync w coreTemplate)
                                  ''Core buffer template (buffer-core.json) not found'' False this1
                    in if existsSync w coreTemplate
                       then Some (try_catch (template_body w coreTemplate this2)
                                    (\<lambda>message. checked False (''Template parsing failed: '' @ message) False))
                       else Some this2)))"

subsection \<open>\<open>validateDependencies\<close>\<close>

definition requiredDeps :: "string list" where
  "requiredDeps = [''ioredis'', ''dotenv'']"

text \<open>
  \<open>{...pkg.dependencies, ...pkg.devDependencies}[dep]\<close>: spreading copies the own
  properties, those of \<open>devDependencies\<close> last, so they win.
\<close>

definition spread_lookup :: "jsval \<Rightarrow> jsval \<Rightarrow> string \<Rightarrow> jsval" where
  "spread_lookup deps devDeps dep =
     (case map_of (own_entries devDeps @ own_entries deps) dep of Some v \<Rightarrow> v | None \<Rightarrow> JUndefined)"

definition dependencies_body :: "world \<Rightarrow> string \<Rightarrow> string \<Rightarrow> validator \<Rightarrow> attempt" where
  "dependencies_body w dir packagePath this =
     reading (read_json w packagePath) this (\<lambda>pkg.
     reading (get pkg ''dependencies'') this (\<lambda>deps.
       (let devDeps = read_prop pkg ''devDependencies'';
            this1 = fold (\<lambda>dep. checked (truthy (spread_lookup deps devDeps dep)) (''Missing dependency: '' @ dep) True)
                      requiredDeps this;
            nodeModulesPath = path_join [dir, ''node_modules'']
        in Inr (checked (existsSync w nodeModulesPath) ''Dependencies not installed (run: npm install)'' True this1))))"

definition validateDependencies :: "world \<Rightarrow> validator \<Rightarrow> validator option" where
  "validateDependencies w this =
     (case cwd w of
        None \<Rightarrow> None
      | Some dir \<Rightarrow>
          (let packagePath = path_join [dir, ''package.json''];
               this1 = checked (existsSync w packagePath) ''package.json not found'' False this
           in if \<not> existsSync w packagePath then Some this1
              else Some (try_catch (dependencies_body w dir packagePath this1)
                           (\<lambda>message. checked False (''package.json parsing failed: '' @ message) False))))"

subsection \<open>\<open>displaySummary\<close> and \<open>main\<close>\<close>

text \<open>
  \<open>displaySummary\<close> prints the counters, the success rate, the warnings and the errors,
  and returns a boolean. The model returns the closing line of the report, which is where
  the branches differ, and the boolean.
\<close>

datatype closing_line = Fix_these_errors | All_validations_passed | Completed_with_warnings

definition displaySummary :: "validator \<Rightarrow> closing_line \<times> bool" where
  "displaySummary this =
     (if length (errors this) > 0 then (Fix_these_errors, False)
      else if length (warnings this) = 0 \<and> length (errors this) = 0 then (All_validations_passed, True)
      else (Completed_with_warnings, True))"

text \<open>
  \<open>main\<close>: the five phases on a new validator, in order. An exception that leaves a
  phase skips the rest, and the \<open>catch\<close> of \<open>main\<close> exits with status 1. Otherwise
  \<open>displaySummary\<close> decides: \<open>process.exit(1)\<close> when it returns false; when it returns
  true \<open>main\<close> returns and the process ends with the default status 0.
\<close>

definition run_phases :: "world \<Rightarrow> validator option" where
  "run_phases w =
     Option.bind (validateEnvironment w new_ConfigValidator) (\<lambda>v1.
     Option.bind (Some (validateRedisConnection w v1)) (\<lambda>v2.
     Option.bind (validateConfiguration w v2) (\<lambda>v3.
     Option.bind (validateTemplates w v3) (\<lambda>v4.
     validateDependencies w v4))))"

definition main :: "world \<Rightarrow> nat" where
  "main w =
     (case run_phases w of
        None \<Rightarrow> 1
      | Some validator \<Rightarrow> (let isValid = snd (displaySummary validator) in if \<not> isValid then 1 else 0))"

subsection \<open>Sample worlds\<close>

text \<open>
  Concrete observations, for running the validator: a project directory \<open>/app\<close> in which
  every file the validator looks for exists, the environment of the template, a Redis
  server that answers, a workflow template with the three required nodes and a
  \<open>package.json\<close> with the two required dependencies. The configuration module and the
  environment are parameters. \<open>RegExp_throws\<close> knows one malformed pattern text, an
  unclosed group.
\<close>

definition sample_template :: jsval where
  "sample_template = JObject
     [(''nodes'', JArray [JObject [(''name'', JStr ''Semantic Analyzer'')],
                          JObject [(''name'', JStr ''Smart Orchestrator'')],
                          JObject [(''id'', JStr ''buffer-manager-1''), (''name'', JStr ''Buffer Manager'')]]),
      (''connections'', JObject [])]"

definition sample_package :: jsval where
  "sample_package = JObject
     [(''name'', JStr ''n8n-smart-buffer''),
      (''dependencies'', JObject [(''ioredis'', JStr ''^5.3.2''), (''dotenv'', JStr ''^16.3.1'')])]"

definition unclosed_group :: jsval where
  "unclosed_group = JStr ''(''"

definition sample_world :: "(string \<times> string) list \<Rightarrow> jsval \<Rightarrow> world" where
  "sample_world assignments config =
     \<lparr>cwd = Some ''/app'',
      env = map_of assignments,
      existsSync = (\<lambda>path. True),
      redis = Session_ok (Some ''validation'') 1,
      require_config = (\<lambda>path. Inr config),
      RegExp_throws = (\<lambda>pattern. case pattern of
                         JStr text \<Rightarrow> if text = ''('' then Some ''Invalid regular expression: /(/: Unterminated group''
                                      else None
                       | _ \<Rightarrow> None),
      read_json = (\<lambda>path. if path = ''/app/package.json'' then Inr sample_package else Inr sample_template)\<rparr>"

text \<open>
  A custom configuration in the shape the README shows, with its patterns given as
  pattern texts (strings) rather than as regular expression literals.
\<close>

definition custom_config :: "jsval list \<Rightarrow> jsval list \<Rightarrow> jsval" where
  "custom_config fragments completes = JObject
     [(''semantic'', JObject [(''patterns'', JObject [(''fragments'', JArray fragments),
                                                     (''complete'', JArray completes)])]),
      (''timing'', timing_section),
      (''buffer'', buffer_section),
      (''circuitBreaker'', circuitBreaker_section)]"

text \<open>
  Five worlds. In \<open>warn_world\<close> the environment sets \<open>BUFFER_TTL\<close> to a text that is no
  number. In \<open>bad_env_world\<close> \<open>INDUSTRY_CONFIG\<close> is not set, \<open>REDIS_URL\<close> lacks scheme and
  port and two of the numeric variables are not positive numbers; \<open>odd_values_world\<close> has
  such values too, but both required variables are set. The other two load a custom
  configuration in which one pattern text is malformed: in \<open>complete\<close>, and in
  \<open>fragments\<close>.
\<close>

definition warn_world :: world where
  "warn_world = sample_world ((''BUFFER_TTL'', ''abc'') # env_example) (medical_config (map_of env_example))"

definition bad_env_world :: world where
  "bad_env_world =
     sample_world [(''REDIS_URL'', ''localhost''), (''BUFFER_TTL'', ''-5''), (''TIMING_URGENT'', ''12abc''),
                   (''TIMING_COMPLEX'', ''abc'')] (medical_config Map.empty)"

definition odd_values_world :: world where
  "odd_values_world =
     sample_world [(''REDIS_URL'', ''localhost''), (''INDUSTRY_CONFIG'', ''medical''), (''BUFFER_TTL'', ''-5''),
                   (''TIMING_URGENT'', ''abc'')] (medical_config Map.empty)"

definition malformed_complete_world :: world where
  "malformed_complete_world = sample_world env_example (custom_config [JStr ''^(hola)$''] [unclosed_group])"

definition malformed_fragment_world :: world where
  "malformed_fragment_world = sample_world env_example (custom_config [JStr ''^(hola)$'', unclosed_group] [JStr ''.+''])"

subsection \<open>Notions for stating properties of the validator\<close>

text \<open>The text of an environment variable, empty when it is not set.\<close>

definition env_text :: "world \<Rightarrow> string \<Rightarrow> string" where
  "env_text w name = (case env w name of Some s \<Rightarrow> s | None \<Rightarrow> [])"

text \<open>No recorded error is ever removed: the list of errors only grows.\<close>

definition keeps_errors :: "validator \<Rightarrow> validator \<Rightarrow> bool" where
  "keeps_errors this this' \<longleftrightarrow> length (errors this) \<le> length (errors this')"

definition attempt_keeps_errors :: "validator \<Rightarrow> attempt \<Rightarrow> bool" where
  "attempt_keeps_errors this a \<longleftrightarrow>
     (case a of Inl (message, this') \<Rightarrow> keeps_errors this this' | Inr this' \<Rightarrow> keeps_errors this this')"

section \<open>Lemmas about the model\<close>

subsection \<open>Case mapping\<close>

text \<open>
  \<open>has_case_partner\<close> holds of exactly the letters of the two tables, and the two case
  mappings carry each table onto the other, position by position.
\<close>

lemma case_partner_letters:
  "filter has_case_partner Enum.enum
     = take 26 upper_letters @ take 26 lower_letters @ drop 26 upper_letters @ drop 26 lower_letters"
  by code_simp

lemma toUpperCase_letters: "map toUpperCase_char lower_letters = upper_letters"
  by code_simp

lemma toLowerCase_letters: "map toLowerCase_char upper_letters = lower_letters"
  by code_simp

subsection \<open>The matcher moves forward\<close>

text \<open>
  Every matcher built by \<open>ends\<close> moves forward, so on these matchers \<open>rep\<close> is the
  RepeatMatcher of the language definition, with no bound beyond the progress test.
\<close>

lemma forwardI: "(\<And>x y. y \<in> set (m x) \<Longrightarrow> length (snd y) \<le> length (snd x)) \<Longrightarrow> forward m"
  by (auto simp: forward_def)

lemma forwardD: "forward m \<Longrightarrow> y \<in> set (m x) \<Longrightarrow> length (snd y) \<le> length (snd x)"
  unfolding forward_def by blast

lemma forward_step_char: "forward (step_char P)"
  by (rule forwardI) (auto simp: step_char_def split: list.splits if_splits)

lemma forward_then:
  assumes "forward m" and "forward k"
  shows "forward (\<lambda>x. concat (map k (m x)))"
proof (rule forwardI)
  fix x y assume "y \<in> set (concat (map k (m x)))"
  then obtain z where "z \<in> set (m x)" and "y \<in> set (k z)" by auto
  then show "length (snd y) \<le> length (snd x)"
    using assms forwardD by (meson order_trans)
qed

lemma forward_lit: "forward (lit ic cs)"
proof (induction cs)
  case Nil
  show ?case by (rule forwardI) simp
next
  case (Cons a cs)
  have "forward (\<lambda>x. concat (map (lit ic cs) (step_char (char_eq ic a) x)))"
    by (rule forward_then [OF forward_step_char Cons])
  then show ?case by (simp add: forward_def)
qed

lemma forward_rep:
  assumes "forward m"
  shows "forward (rep lo hi m)"
proof -
  have "y \<in> set (rep lo hi m x) \<Longrightarrow> length (snd y) \<le> length (snd x)" for x y
  proof (induction lo hi m x arbitrary: y rule: rep.induct)
    case (1 lo hi m x)
    from "1.prems" show ?case
      apply (subst (asm) rep.simps)
      apply (auto split: if_splits dest!: "1.IH")
      done
  qed
  then show ?thesis by (rule forwardI)
qed

lemma forward_cat:
  assumes "\<And>m. m \<in> set ms \<Longrightarrow> forward m"
  shows "forward (foldr (\<lambda>m k x. concat (map k (m x))) ms (\<lambda>x. [x]))"
  using assms
proof (induction ms)
  case Nil
  show ?case by (rule forwardI) simp
next
  case (Cons m ms)
  have "forward (\<lambda>x. concat (map (foldr (\<lambda>m k x. concat (map k (m x))) ms (\<lambda>x. [x])) (m x)))"
    by (rule forward_then) (use Cons in auto)
  then show ?case by simp
qed

lemma forward_ends: "forward (ends ic r)"
proof (induction r)
  case (Lit cs)
  show ?case by (simp add: forward_lit)
next
  case (Cat rs)
  show ?case unfolding ends.simps by (rule forward_cat) (use Cat in auto)
next
  case (Alt rs)
  show ?case by (rule forwardI) (use Alt in \<open>auto dest: forwardD\<close>)
next
  case (Rep lo hi r)
  then show ?case by (simp add: forward_rep)
qed (auto simp: forward_step_char intro!: forwardI split: if_splits)

lemma rep_RepeatMatcher:
  "rep lo hi (ends ic r) x =
     (if hi = Some 0 then []
      else concat (map (rep (lo - 1) (map_option (\<lambda>h. h - 1) hi) (ends ic r))
             (filter (\<lambda>y. lo = 0 \<longrightarrow> length (snd y) < length (snd x)) (ends ic r x))))
     @ (if lo = 0 then [x] else [])"
proof -
  have "filter (\<lambda>y. if lo = 0 then length (snd y) < length (snd x) else length (snd y) \<le> length (snd x)) (ends ic r x)
      = filter (\<lambda>y. lo = 0 \<longrightarrow> length (snd y) < length (snd x)) (ends ic r x)"
    by (rule filter_cong) (use forwardD [OF forward_ends] in auto)
  then show ?thesis by (subst rep.simps) simp
qed

subsection \<open>Intent detection\<close>

lemma detect_intent_UNKNOWN:
  "detect_intent mapping t = UNKNOWN \<longleftrightarrow> \<not> list_ex (\<lambda>(name, p). regex_test p t) mapping"
  by (induction mapping) (auto split: prod.splits)

lemma detect_intent_first:
  "\<not> list_ex (\<lambda>(name, p). regex_test p t) before \<Longrightarrow> regex_test p t
     \<Longrightarrow> detect_intent (before @ (name, p) # rest) t = Intent name"
  by (induction before) (auto split: prod.splits)

subsection \<open>Where the medical configuration names intents and urgency classes\<close>

text \<open>
  Section by section: which parts name nothing, and where the semantic, timing and
  validation sections name an intent or an urgency class. The two sections that read
  the environment are examined for every environment.
\<close>

lemma name_lists: "set (map (toLowerCase \<circ> fst) urgency_table) = set intent_names"
  "set (map (toLowerCase \<circ> snd) urgency_table) = set urgency_names"
  by code_simp+

lemma table_shapes_recognised: "list_all contains_urgency_table table_shapes"
  by code_simp

lemma subvalues_env_value [simp]: "subvalues (env_value ev k) = [env_value ev k]"
  by (simp add: env_value_def split: option.splits)

lemma plain_buffer: "plain buffer_section" by code_simp
lemma plain_circuitBreaker: "plain circuitBreaker_section" by code_simp
lemma plain_security: "plain security_section" by code_simp
lemma plain_triggers: "plain alert_triggers" by code_simp

lemma semantic_facts:
  "\<not> list_ex holds_table (subvalues semantic_section)"
  "mentions_deep names_intent semantic_section"
  "\<not> mentions_deep names_urgency semantic_section"
  "filter names_either (string_values semantic_section) = []"
  "key_paths names_intent semantic_section = map (\<lambda>name. [''patterns'', ''intents'', name]) intent_priority"
  "key_paths names_urgency semantic_section = []"
  by code_simp+

lemma timing_facts:
  "\<not> list_ex holds_table (subvalues timing_section)"
  "\<not> mentions_deep names_intent timing_section"
  "mentions_deep names_urgency timing_section"
  "filter names_either (string_values timing_section) = []"
  "key_paths names_intent timing_section = []"
  "key_paths names_urgency timing_section
     = concat (map (\<lambda>profile. map (\<lambda>class. [''profiles'', profile, class]) urgency_names)
         [''aggressive'', ''balanced'', ''conservative''])"
  by code_simp+

lemma validation_facts:
  "\<not> list_ex holds_table (subvalues validation_section)"
  "\<not> mentions_deep names_intent validation_section"
  "mentions_deep names_urgency validation_section"
  "filter names_either (string_values validation_section) = []"
  "key_paths names_intent validation_section = []"
  "key_paths names_urgency validation_section = [[''rules'', ''timing.profiles.balanced.urgent'']]"
  by code_simp+

lemma plain_parts: "plain metrics_retention" "plain metrics_tracking" "plain ml_timeouts" "plain ml_confidence"
  by code_simp+

lemma metrics_section_parts:
  "metrics_section ev = JObject
     [(''retention'', metrics_retention), (''tracking'', metrics_tracking),
      (''alerts'', JObject [(''enabled'', JBool True), (''webhook'', env_value ev ''ALERT_WEBHOOK_URL''),
                            (''triggers'', alert_triggers)])]"
  by (simp add: metrics_section_def metrics_retention_def metrics_tracking_def)

lemma ml_section_parts:
  "ml_section ev = JObject
     [(''enabled'', JBool False), (''fallbackToRegex'', JBool True),
      (''endpoints'', JObject [(''intent'', env_value ev ''ML_INTENT_ENDPOINT''),
                               (''entity'', env_value ev ''ML_ENTITY_ENDPOINT''),
                               (''sentiment'', env_value ev ''ML_SENTIMENT_ENDPOINT'')]),
      (''timeouts'', ml_timeouts), (''confidence'', ml_confidence)]"
  by (simp add: ml_section_def ml_timeouts_def ml_confidence_def)

lemma plain_keys:
  "\<not> names_intent ''retention''" "\<not> names_urgency ''retention''"
  "\<not> names_intent ''tracking''" "\<not> names_urgency ''tracking''"
  "\<not> names_intent ''alerts''" "\<not> names_urgency ''alerts''"
  "\<not> names_intent ''enabled''" "\<not> names_urgency ''enabled''"
  "\<not> names_intent ''webhook''" "\<not> names_urgency ''webhook''"
  "\<not> names_intent ''triggers''" "\<not> names_urgency ''triggers''"
  "\<not> names_intent ''fallbackToRegex''" "\<not> names_urgency ''fallbackToRegex''"
  "\<not> names_intent ''endpoints''" "\<not> names_urgency ''endpoints''"
  "\<not> names_intent ''intent''" "\<not> names_urgency ''intent''"
  "\<not> names_intent ''entity''" "\<not> names_urgency ''entity''"
  "\<not> names_intent ''sentiment''" "\<not> names_urgency ''sentiment''"
  "\<not> names_intent ''timeouts''" "\<not> names_urgency ''timeouts''"
  "\<not> names_intent ''confidence''" "\<not> names_urgency ''confidence''"
  "\<not> names_intent ''name''" "\<not> names_urgency ''name''"
  "\<not> names_intent ''version''" "\<not> names_urgency ''version''"
  "\<not> names_intent ''description''" "\<not> names_urgency ''description''"
  "\<not> names_intent ''semantic''" "\<not> names_urgency ''semantic''"
  "\<not> names_intent ''timing''" "\<not> names_urgency ''timing''"
  "\<not> names_intent ''buffer''" "\<not> names_urgency ''buffer''"
  "\<not> names_intent ''circuitBreaker''" "\<not> names_urgency ''circuitBreaker''"
  "\<not> names_intent ''metrics''" "\<not> names_urgency ''metrics''"
  "\<not> names_intent ''ml''" "\<not> names_urgency ''ml''"
  "\<not> names_intent ''security''" "\<not> names_urgency ''security''"
  "\<not> names_intent ''validation''" "\<not> names_urgency ''validation''"
  "\<not> names_intent ''Medical/Healthcare Configuration''" "\<not> names_urgency ''Medical/Healthcare Configuration''"
  "\<not> names_intent ''1.0.0''" "\<not> names_urgency ''1.0.0''"
  "\<not> names_intent ''Semantic patterns and timing optimized for medical consultations''" "\<not> names_urgency ''Semantic patterns and timing optimized for medical consultations''"
  by code_simp+

lemma key_paths_env_value [simp]: "key_paths P (env_value ev k) = []"
  by (simp add: env_value_def split: option.splits)

lemma string_values_env_value [simp]:
  "string_values (env_value ev k) = (case ev k of Some s \<Rightarrow> [s] | None \<Rightarrow> [])"
  by (simp add: env_value_def split: option.splits)

lemma members_env_value [simp]: "members (env_value ev k) = []"
  by (simp add: env_value_def split: option.splits)

lemma leafy_sections [simp]:
  "\<not> leafy P semantic_section" "\<not> leafy P timing_section" "\<not> leafy P buffer_section"
  "\<not> leafy P circuitBreaker_section" "\<not> leafy P security_section" "\<not> leafy P validation_section"
  "\<not> leafy P (metrics_section ev)" "\<not> leafy P (ml_section ev)" "\<not> leafy P alert_triggers"
  "\<not> leafy P metrics_retention" "\<not> leafy P metrics_tracking" "\<not> leafy P ml_timeouts"
  "\<not> leafy P ml_confidence"
  by (simp_all add: semantic_section_def timing_section_def buffer_section_def circuitBreaker_section_def
      security_section_def validation_section_def metrics_section_def ml_section_def alert_triggers_def
      metrics_retention_def metrics_tracking_def ml_timeouts_def ml_confidence_def)

lemma holds_table_env_value [simp]: "\<not> holds_table (env_value ev k)"
  by (simp add: env_value_def holds_table_def split: option.splits)

lemma mentions_env_value:
  "mentions_deep P (env_value ev k) = (case ev k of Some s \<Rightarrow> P s | None \<Rightarrow> False)"
  "leafy P (env_value ev k) = (case ev k of Some s \<Rightarrow> P s | None \<Rightarrow> False)"
  by (simp_all add: env_value_def split: option.splits)

lemma env_clean_mentions:
  assumes "env_clean ev"
    and "k \<in> set [''ALERT_WEBHOOK_URL'', ''ML_INTENT_ENDPOINT'', ''ML_ENTITY_ENDPOINT'', ''ML_SENTIMENT_ENDPOINT'']"
  shows "\<not> mentions_deep names_intent (env_value ev k)" "\<not> mentions_deep names_urgency (env_value ev k)"
    "\<not> leafy names_intent (env_value ev k)" "\<not> leafy names_urgency (env_value ev k)"
  using assms
  by (auto simp: env_clean_def env_strings_def names_either_def mentions_env_value split: option.splits if_splits)

lemmas plain_facts =
  plain_buffer [unfolded plain_def] plain_circuitBreaker [unfolded plain_def] plain_security [unfolded plain_def]
  plain_triggers [unfolded plain_def] plain_parts [unfolded plain_def]

lemma metrics_keys:
  "key_paths names_intent (metrics_section ev) = []" "key_paths names_urgency (metrics_section ev) = []"
  "filter names_either (string_values (metrics_section ev))
     = filter names_either (case ev ''ALERT_WEBHOOK_URL'' of Some s \<Rightarrow> [s] | None \<Rightarrow> [])"
  unfolding metrics_section_parts
  by (simp_all add: plain_facts plain_keys)

lemma ml_keys:
  "key_paths names_intent (ml_section ev) = []" "key_paths names_urgency (ml_section ev) = []"
  "filter names_either (string_values (ml_section ev))
     = filter names_either (concat (map (\<lambda>name. case ev name of Some s \<Rightarrow> [s] | None \<Rightarrow> [])
         [''ML_INTENT_ENDPOINT'', ''ML_ENTITY_ENDPOINT'', ''ML_SENTIMENT_ENDPOINT'']))"
  unfolding ml_section_parts
  by (simp_all add: plain_facts plain_keys)

lemma metrics_clean:
  assumes "env_clean ev"
  shows "\<not> list_ex holds_table (subvalues (metrics_section ev))"
    "\<not> mentions_deep names_intent (metrics_section ev)" "\<not> mentions_deep names_urgency (metrics_section ev)"
  unfolding metrics_section_parts
  by (simp_all add: plain_facts plain_keys holds_table_def env_clean_mentions [OF assms])

lemma ml_clean:
  assumes "env_clean ev"
  shows "\<not> list_ex holds_table (subvalues (ml_section ev))"
    "\<not> mentions_deep names_intent (ml_section ev)" "\<not> mentions_deep names_urgency (ml_section ev)"
  unfolding ml_section_parts
  by (simp_all add: plain_facts plain_keys holds_table_def env_clean_mentions [OF assms])

lemma config_key_paths:
  "key_paths names_urgency (medical_config ev)
     = concat (map (\<lambda>profile. map (\<lambda>class. [''timing'', ''profiles'', profile, class]) urgency_names)
         [''aggressive'', ''balanced'', ''conservative''])
       @ [[''validation'', ''rules'', ''timing.profiles.balanced.urgent'']]"
  "key_paths names_intent (medical_config ev)
     = map (\<lambda>name. [''semantic'', ''patterns'', ''intents'', name]) intent_priority"
  by (simp_all add: medical_config_def plain_facts plain_keys semantic_facts timing_facts validation_facts
      metrics_keys ml_keys urgency_names_def intent_priority_def)

lemma config_strings:
  "filter names_either (string_values (medical_config ev)) = filter names_either (env_strings ev)"
  by (simp add: medical_config_def plain_facts plain_keys semantic_facts timing_facts validation_facts
      metrics_keys ml_keys env_strings_def names_either_def)

lemma config_no_table:
  assumes "env_clean ev"
  shows "\<not> contains_urgency_table (medical_config ev)"
  by (simp add: contains_urgency_table_def medical_config_def holds_table_def plain_facts plain_keys
      semantic_facts timing_facts validation_facts metrics_clean [OF assms] ml_clean [OF assms])

lemma clean_template: "env_clean (map_of env_example)" "env_clean Map.empty"
  by code_simp+

subsection \<open>What one \<open>check\<close> records\<close>

lemma errors_checked:
  "errors (checked c e w this) = errors this @ (if c \<or> w then [] else [e])"
  by (simp add: checked_def check_def Let_def)

lemma warnings_checked:
  "warnings (checked c e w this) = warnings this @ (if \<not> c \<and> w then [e] else [])"
  by (simp add: checked_def check_def Let_def)

subsection \<open>No phase removes a recorded error\<close>

lemma keeps_errors_refl [simp]: "keeps_errors this this"
  by (simp add: keeps_errors_def)

lemma keeps_errors_trans [trans]: "keeps_errors a b \<Longrightarrow> keeps_errors b c \<Longrightarrow> keeps_errors a c"
  by (simp add: keeps_errors_def)

lemma checked_keeps_errors [simp]: "keeps_errors this (checked c e w this)"
  by (simp add: keeps_errors_def errors_checked)

lemma keeps_errors_checked: "keeps_errors this this' \<Longrightarrow> keeps_errors this (checked c e w this')"
  using checked_keeps_errors keeps_errors_trans by blast

lemma fold_keeps_errors:
  "(\<And>x v. keeps_errors v (f x v)) \<Longrightarrow> keeps_errors this (fold f xs this)"
proof (induction xs arbitrary: this)
  case Nil
  show ?case by simp
next
  case (Cons x xs)
  have "keeps_errors this (f x this)" by (rule Cons.prems)
  moreover have "keeps_errors (f x this) (fold f xs (f x this))" by (rule Cons.IH) (rule Cons.prems)
  ultimately show ?case using keeps_errors_trans by auto
qed

lemma attempt_keeps_Inr [simp]: "attempt_keeps_errors this (Inr this') = keeps_errors this this'"
  by (simp add: attempt_keeps_errors_def)

lemma attempt_keeps_Inl [simp]: "attempt_keeps_errors this (Inl (m, this')) = keeps_errors this this'"
  by (simp add: attempt_keeps_errors_def)

lemma attempt_keeps_trans:
  "keeps_errors a b \<Longrightarrow> attempt_keeps_errors b r \<Longrightarrow> attempt_keeps_errors a r"
  by (auto simp: attempt_keeps_errors_def split: sum.splits intro: keeps_errors_trans)

lemma and_then_keeps:
  "attempt_keeps_errors this a \<Longrightarrow> (\<And>v. attempt_keeps_errors v (f v))
     \<Longrightarrow> attempt_keeps_errors this (and_then a f)"
  by (cases a) (auto simp: and_then_def intro: attempt_keeps_trans)

lemma forEach_keeps:
  "(\<And>x v. attempt_keeps_errors v (f x v)) \<Longrightarrow> attempt_keeps_errors this (forEach f xs this)"
proof (induction xs arbitrary: this)
  case Nil
  show ?case by simp
next
  case (Cons x xs)
  show ?case
    unfolding forEach.simps
    by (rule and_then_keeps) (use Cons in auto)
qed

lemma reading_keeps:
  "(\<And>x. attempt_keeps_errors this (f x)) \<Longrightarrow> attempt_keeps_errors this (reading r this f)"
  by (cases r) (auto simp: reading_def)

lemma try_catch_keeps:
  "attempt_keeps_errors this a \<Longrightarrow> (\<And>m v. keeps_errors v (h m v)) \<Longrightarrow> keeps_errors this (try_catch a h)"
  by (cases a) (auto simp: try_catch_def intro: keeps_errors_trans)

lemma compile_fragments_keeps:
  "keeps_errors this (snd (compile_fragments w ps i (b, this)))"
proof (induction ps arbitrary: i b this)
  case Nil
  show ?case by simp
next
  case (Cons p ps)
  show ?case
  proof (cases "new_RegExp w p")
    case None
    then show ?thesis using Cons.IH by simp
  next
    case (Some m)
    have "keeps_errors this
            (errors_update (\<lambda>errors. errors @ [''Invalid regex in fragments['' @ show_nat i @ '']: '' @ m]) this)"
      by (simp add: keeps_errors_def)
    then show ?thesis using Some Cons.IH keeps_errors_trans by auto
  qed
qed

lemma validate_patterns_keeps: "attempt_keeps_errors this (validate_patterns w ps this)"
proof -
  let ?t2 = "checked (isArray (read_prop ps ''complete'')) ''Complete patterns should be an array'' False
       (checked (isArray (read_prop ps ''fragments'')) ''Fragment patterns should be an array'' False this)"
  have k2: "keeps_errors this ?t2"
    by (intro keeps_errors_checked) simp
  show ?thesis
  proof (cases "read_prop ps ''fragments''")
    case (JArray xs)
    obtain b t3 where c: "compile_fragments w xs 0 (True, ?t2) = (b, t3)"
      by (cases "compile_fragments w xs 0 (True, ?t2)")
    have "keeps_errors ?t2 t3" using compile_fragments_keeps [of ?t2 w xs 0 True] c by simp
    then have "keeps_errors this (checked b ''Some fragment patterns have invalid regex syntax'' False t3)"
      using k2 keeps_errors_trans keeps_errors_checked by blast
    then show ?thesis using JArray c by (simp add: validate_patterns_def Let_def)
  qed (use k2 in \<open>simp_all add: validate_patterns_def Let_def\<close>)
qed

lemma check_timing_keeps: "attempt_keeps_errors this (check_timing n p t this)"
  unfolding check_timing_def by (rule reading_keeps) simp

lemma validate_timing_keeps: "attempt_keeps_errors this (validate_timing ps this)"
  unfolding validate_timing_def Let_def
  by (rule attempt_keeps_trans [OF checked_keeps_errors], rule forEach_keeps)
     (auto intro: forEach_keeps check_timing_keeps)

lemma validate_buffer_keeps: "keeps_errors this (validate_buffer b this)"
  unfolding validate_buffer_def by (intro keeps_errors_checked) simp

lemma check_section_keeps: "attempt_keeps_errors this (check_section c n this)"
  unfolding check_section_def by (rule reading_keeps) simp

lemma config_body_keeps: "attempt_keeps_errors this (config_body w path this)"
proof (cases "require_config w path")
  case (Inl m)
  then show ?thesis by (simp add: config_body_def)
next
  case (Inr config)
  show ?thesis
    unfolding config_body_def Inr sum.case Let_def
    by (intro and_then_keeps forEach_keeps check_section_keeps)
       (auto intro: validate_patterns_keeps validate_timing_keeps validate_buffer_keeps)
qed

lemma validateEnvironment_keeps:
  "validateEnvironment w this = Some this' \<Longrightarrow> keeps_errors this this'"
  unfolding validateEnvironment_def Let_def
  by (auto split: option.splits simp: check_redis_url_def
      intro!: keeps_errors_trans [OF _ fold_keeps_errors [where f = "check_numeric w"]]
              keeps_errors_trans [OF _ fold_keeps_errors [where f = "check_required w"]]
              keeps_errors_checked
      simp: check_numeric_def check_required_def Let_def)

lemma validateRedisConnection_keeps: "keeps_errors this (validateRedisConnection w this)"
  by (auto simp: validateRedisConnection_def redis_failed_def check_ttl_def check_operations_def
      split: redis_session.splits intro!: keeps_errors_checked)

lemma validateConfiguration_keeps:
  "validateConfiguration w this = Some this' \<Longrightarrow> keeps_errors this this'"
  unfolding validateConfiguration_def Let_def
  by (auto split: option.splits if_splits
      intro!: try_catch_keeps attempt_keeps_trans [OF checked_keeps_errors config_body_keeps])

lemma check_node_keeps: "attempt_keeps_errors this (check_node names n this)"
  by (simp add: check_node_def split: sum.splits)

lemma template_body_keeps: "attempt_keeps_errors this (template_body w path this)"
  unfolding template_body_def Let_def
  by (intro reading_keeps)
     (auto split: jsval.splits sum.splits
        intro!: attempt_keeps_trans [OF keeps_errors_checked [OF checked_keeps_errors]
                                        forEach_keeps [of "check_node names" for names]]
                check_node_keeps keeps_errors_checked)

lemma validateTemplates_keeps:
  "validateTemplates w this = Some this' \<Longrightarrow> keeps_errors this this'"
  unfolding validateTemplates_def Let_def
  by (auto split: option.splits if_splits
      intro!: try_catch_keeps
              attempt_keeps_trans [OF keeps_errors_checked [OF checked_keeps_errors] template_body_keeps]
      intro: keeps_errors_checked)

lemma dependencies_body_keeps: "attempt_keeps_errors this (dependencies_body w dir path this)"
  unfolding dependencies_body_def Let_def
  by (intro reading_keeps) (auto intro!: keeps_errors_checked fold_keeps_errors)

lemma validateDependencies_keeps:
  "validateDependencies w this = Some this' \<Longrightarrow> keeps_errors this this'"
  unfolding validateDependencies_def Let_def
  by (auto split: option.splits if_splits
      intro!: try_catch_keeps attempt_keeps_trans [OF checked_keeps_errors dependencies_body_keeps])

lemma run_phases_keeps:
  assumes "validateEnvironment w new_ConfigValidator = Some v1" and "run_phases w = Some v"
  shows "keeps_errors v1 v"
proof -
  from assms obtain v3 v4 where
    3: "validateConfiguration w (validateRedisConnection w v1) = Some v3" and
    4: "validateTemplates w v3 = Some v4" and
    5: "validateDependencies w v4 = Some v"
    by (auto simp: run_phases_def split: Option.bind_splits)
  have "keeps_errors v1 (validateRedisConnection w v1)" by (rule validateRedisConnection_keeps)
  also have "keeps_errors (validateRedisConnection w v1) v3" by (rule validateConfiguration_keeps [OF 3])
  also have "keeps_errors v3 v4" by (rule validateTemplates_keeps [OF 4])
  also have "keeps_errors v4 v" by (rule validateDependencies_keeps [OF 5])
  finally show ?thesis .
qed

subsection \<open>The exit status, and what \<open>validateEnvironment\<close> records\<close>

lemma main_exit:
  "main w = (case run_phases w of None \<Rightarrow> 1 | Some v \<Rightarrow> if errors v = [] then 0 else 1)"
  by (simp add: main_def displaySummary_def split: option.splits)

lemma errors_check_numeric: "errors (check_numeric w name this) = errors this"
  by (simp add: check_numeric_def errors_checked Let_def split: option.splits)

lemma errors_fold_check_numeric: "errors (fold (check_numeric w) names this) = errors this"
  by (induction names arbitrary: this) (simp_all add: errors_check_numeric)

lemma warnings_check_numeric:
  "warnings (check_numeric w name this)
     = warnings this @ (if env_truthy w name \<and> \<not> positive_int (parseInt (env_text w name))
                        then [not_positive name] else [])"
  by (simp add: check_numeric_def warnings_checked env_truthy_def env_value_def env_text_def Let_def
      split: option.splits)

lemma warnings_fold_check_numeric:
  "warnings (fold (check_numeric w) names this)
     = warnings this @ concat (map (\<lambda>name. if env_truthy w name \<and> \<not> positive_int (parseInt (env_text w name))
                                             then [not_positive name] else []) names)"
  by (induction names arbitrary: this) (simp_all add: warnings_check_numeric)

lemma errors_check_redis_url: "errors (check_redis_url w this) = errors this"
  by (simp add: check_redis_url_def errors_checked split: option.splits)

lemma warnings_check_redis_url:
  "warnings (check_redis_url w this)
     = warnings this @ (if env_truthy w ''REDIS_URL'' \<and> \<not> regex_test redisUrlPattern (env_text w ''REDIS_URL'')
                        then [''Redis URL format is invalid (should be redis://host:port)''] else [])"
  by (simp add: check_redis_url_def warnings_checked env_truthy_def env_value_def env_text_def
      split: option.splits)

lemma errors_check_required:
  "errors (check_required w name this) = errors this @ (if env_truthy w name then [] else [env_missing name])"
  by (simp add: check_required_def errors_checked)

lemma warnings_check_required: "warnings (check_required w name this) = warnings this"
  by (simp add: check_required_def warnings_checked)

lemma validateEnvironment_effect:
  assumes "cwd w = Some dir"
  shows "\<exists>this'. validateEnvironment w this = Some this'
    \<and> errors this' = errors this
         @ (if existsSync w (path_join [dir, ''.env'']) then [] else [''.env file is missing (copy from .env.example)''])
         @ (if env_truthy w ''REDIS_URL'' then [] else [''REDIS_URL is missing in .env file''])
         @ (if env_truthy w ''INDUSTRY_CONFIG'' then [] else [''INDUSTRY_CONFIG is missing in .env file''])
    \<and> warnings this' = warnings this
         @ (if env_truthy w ''REDIS_URL'' \<and> \<not> regex_test redisUrlPattern (env_text w ''REDIS_URL'')
            then [''Redis URL format is invalid (should be redis://host:port)''] else [])
         @ concat (map (\<lambda>name. if env_truthy w name \<and> \<not> positive_int (parseInt (env_text w name))
                                then [name @ '' is not a valid positive number''] else [])
                     [''BUFFER_TTL'', ''TIMING_URGENT'', ''TIMING_SIMPLE'', ''TIMING_COMPLEX''])"
proof -
  let ?v = "fold (check_numeric w) numericVars (check_redis_url w (fold (check_required w) requiredVars
      (checked (existsSync w (path_join [dir, ''.env''])) ''.env file is missing (copy from .env.example)'' False this)))"
  have 1: "validateEnvironment w this = Some ?v"
    using assms by (simp add: validateEnvironment_def Let_def)
  have 2: "errors ?v = errors this
         @ (if existsSync w (path_join [dir, ''.env'']) then [] else [''.env file is missing (copy from .env.example)''])
         @ (if env_truthy w ''REDIS_URL'' then [] else [''REDIS_URL is missing in .env file''])
         @ (if env_truthy w ''INDUSTRY_CONFIG'' then [] else [''INDUSTRY_CONFIG is missing in .env file''])"
    by (simp add: errors_fold_check_numeric errors_check_redis_url requiredVars_def
        errors_check_required errors_checked env_missing_def split del: if_split cong: if_cong)
  have 3: "warnings ?v = warnings this
         @ (if env_truthy w ''REDIS_URL'' \<and> \<not> regex_test redisUrlPattern (env_text w ''REDIS_URL'')
            then [''Redis URL format is invalid (should be redis://host:port)''] else [])
         @ concat (map (\<lambda>name. if env_truthy w name \<and> \<not> positive_int (parseInt (env_text w name))
                                then [name @ '' is not a valid positive number''] else [])
                     [''BUFFER_TTL'', ''TIMING_URGENT'', ''TIMING_SIMPLE'', ''TIMING_COMPLEX''])"
    unfolding warnings_fold_check_numeric warnings_check_redis_url
    by (simp add: requiredVars_def numericVars_def warnings_check_required warnings_checked not_positive_def
        split del: if_split cong: if_cong)
  from 1 2 3 show ?thesis by blast
qed

lemma missing_required_fails:
  assumes "\<not> env_truthy w ''REDIS_URL'' \<or> \<not> env_truthy w ''INDUSTRY_CONFIG''"
  shows "main w = 1"
proof (cases "run_phases w")
  case None
  then show ?thesis by (simp add: main_exit)
next
  case (Some v)
  then obtain v1 where 1: "validateEnvironment w new_ConfigValidator = Some v1"
    by (auto simp: run_phases_def split: Option.bind_splits)
  then obtain dir where "cwd w = Some dir"
    by (auto simp: validateEnvironment_def split: option.splits)
  from validateEnvironment_effect [OF this, of new_ConfigValidator] 1 assms
  have "errors v1 \<noteq> []" by auto
  moreover have "keeps_errors v1 v" by (rule run_phases_keeps [OF 1 Some])
  ultimately have "errors v \<noteq> []" by (auto simp: keeps_errors_def)
  with Some show ?thesis by (simp add: main_exit)
qed

subsection \<open>A malformed pattern in \<open>fragments\<close> fails the validation\<close>

text \<open>
  Whenever the configuration module loads and \<open>semantic.patterns.fragments\<close> is an array
  that holds a pattern which does not compile, \<open>main\<close> ends with status 1.
\<close>

lemma compile_fragments_error:
  "p \<in> set ps \<Longrightarrow> new_RegExp w p = Some m \<Longrightarrow> errors (snd (compile_fragments w ps i (b, this))) \<noteq> []"
proof (induction ps arbitrary: i b this)
  case Nil
  then show ?case by simp
next
  case (Cons q ps)
  show ?case
  proof (cases "q = p")
    case True
    let ?v = "errors_update (\<lambda>errors. errors @ [''Invalid regex in fragments['' @ show_nat i @ '']: '' @ m]) this"
    have "keeps_errors ?v (snd (compile_fragments w ps (i + 1) (False, ?v)))"
      by (rule compile_fragments_keeps)
    then show ?thesis using True Cons.prems by (auto simp: keeps_errors_def)
  next
    case False
    then have "p \<in> set ps" using Cons.prems by simp
    from Cons.IH [OF this Cons.prems(2)] show ?thesis
      by (cases "new_RegExp w q") auto
  qed
qed

lemma validate_patterns_error:
  assumes "read_prop patterns ''fragments'' = JArray ps" and "p \<in> set ps" and "new_RegExp w p = Some m"
  shows "\<exists>v. validate_patterns w patterns this = Inr v \<and> errors v \<noteq> []"
proof -
  let ?t2 = "checked (isArray (read_prop patterns ''complete'')) ''Complete patterns should be an array'' False
       (checked (isArray (JArray ps)) ''Fragment patterns should be an array'' False this)"
  obtain b t3 where c: "compile_fragments w ps 0 (True, ?t2) = (b, t3)"
    by (cases "compile_fragments w ps 0 (True, ?t2)")
  have "errors t3 \<noteq> []"
    using compile_fragments_error [OF assms(2,3), of 0 True ?t2] c by simp
  then have "errors (checked b ''Some fragment patterns have invalid regex syntax'' False t3) \<noteq> []"
    by (simp add: errors_checked)
  then show ?thesis using assms(1) c by (simp add: validate_patterns_def Let_def)
qed

lemma keeps_nonempty: "keeps_errors v v' \<Longrightarrow> errors v \<noteq> [] \<Longrightarrow> errors v' \<noteq> []"
  by (auto simp: keeps_errors_def)

lemma try_catch_error:
  assumes "\<And>v. a = Inr v \<Longrightarrow> errors v \<noteq> []"
  shows "errors (try_catch a (\<lambda>message. checked False (pre @ message) False)) \<noteq> []"
  by (cases a) (auto simp: try_catch_def errors_checked assms)

lemma read_prop_truthy:
  assumes "read_prop v k \<noteq> JUndefined" and "k \<noteq> ''length''"
  shows "truthy v"
  using assms by (cases v) (auto simp: read_prop_def indexed_def)

lemma config_body_error:
  assumes load: "require_config w path = Inr config"
    and frags: "get_path config [''semantic'', ''patterns'', ''fragments''] = Inr (JArray ps)"
    and bad: "p \<in> set ps" "new_RegExp w p = Some m"
    and fin: "config_body w path this = Inr v"
  shows "errors v \<noteq> []"
proof -
  let ?semantic = "read_prop config ''semantic''"
  let ?patterns = "read_prop ?semantic ''patterns''"
  from frags have f: "read_prop ?patterns ''fragments'' = JArray ps"
    by (auto simp: get_def split: sum.splits jsval.splits)
  then have tp: "truthy ?patterns" using read_prop_truthy [of ?patterns "''fragments''"] by simp
  then have "?patterns \<noteq> JUndefined" by auto
  then have ts: "truthy ?semantic" using read_prop_truthy [of ?semantic "''patterns''"] by simp
  from fin load obtain this1 where
    1: "forEach (check_section config) requiredSections this = Inr this1"
    by (auto simp: config_body_def and_then_def split: sum.splits)
  from validate_patterns_error [OF f bad] obtain this2 where
    2: "validate_patterns w ?patterns this1 = Inr this2" and e2: "errors this2 \<noteq> []" by blast
  let ?rest = "\<lambda>this2. and_then (let timing = read_prop config ''timing''
                    in if truthy timing \<and> truthy (read_prop timing ''profiles'')
                       then validate_timing (read_prop timing ''profiles'') this2
                       else Inr this2) (\<lambda>this3.
          Inr (if truthy (read_prop config ''buffer'')
               then validate_buffer (read_prop config ''buffer'') this3
               else this3))"
  have k: "attempt_keeps_errors this2 (?rest this2)"
    unfolding Let_def
    by (intro and_then_keeps) (auto intro: validate_timing_keeps validate_buffer_keeps)
  have "config_body w path this = ?rest this2"
    using load 1 2 ts tp by (simp add: config_body_def and_then_def Let_def)
  with fin k have "keeps_errors this2 v" by simp
  with e2 show ?thesis by (rule keeps_nonempty [rotated])
qed

lemma malformed_fragment_fails:
  assumes cwd: "cwd w = Some dir"
    and ex: "existsSync w (configPath w dir)"
    and load: "require_config w (configPath w dir) = Inr config"
    and frags: "get_path config [''semantic'', ''patterns'', ''fragments''] = Inr (JArray ps)"
    and bad: "p \<in> set ps" "new_RegExp w p = Some m"
  shows "main w = 1"
proof (cases "run_phases w")
  case None
  then show ?thesis by (simp add: main_exit)
next
  case (Some v)
  then obtain v1 v3 v4 where
    3: "validateConfiguration w (validateRedisConnection w v1) = Some v3" and
    4: "validateTemplates w v3 = Some v4" and
    5: "validateDependencies w v4 = Some v"
    by (auto simp: run_phases_def split: Option.bind_splits)
  let ?this1 = "checked (existsSync w (configPath w dir)) (''Configuration file not found: '' @ configPath w dir)
                  False (validateRedisConnection w v1)"
  have "v3 = try_catch (config_body w (configPath w dir) ?this1)
               (\<lambda>message. checked False (''Configuration loading failed: '' @ message) False)"
    using 3 cwd ex by (simp add: validateConfiguration_def Let_def)
  then have "errors v3 \<noteq> []"
    using try_catch_error [of "config_body w (configPath w dir) ?this1" "''Configuration loading failed: ''"]
      config_body_error [OF load frags bad] by blast
  moreover have "keeps_errors v3 v4" by (rule validateTemplates_keeps [OF 4])
  moreover have "keeps_errors v4 v" by (rule validateDependencies_keeps [OF 5])
  ultimately have "errors v \<noteq> []" by (meson keeps_nonempty)
  with Some show ?thesis by (simp add: main_exit)
qed

section \<open>The claims\<close>

subsection \<open>Scenario A under the medical configuration\<close>

text \<open>
  Claim C1, which the medical configuration does not meet: under its pattern sets and the
  classification algorithm of section 4.1 the text "quiero un turno" is to be classified
  FRAGMENT, as the README documents it (the text is buffered and comes out aggregated
  with what follows; "quiero un" is its example of a fragmented message). The text
  matches no pattern of the configured \<open>complete\<close> set and none of the configured
  \<open>fragments\<close> set, so the algorithm classifies it COMPLETE, by its default; so it does
  "quiero un". Of the fragments patterns only single words and fixed phrases such as
  "quiero" are matched.
\<close>

theorem scenarioA_first_defaults_to_COMPLETE:
  "normalize scenarioA_first = scenarioA_first
   \<and> \<not> matches_any patterns_complete (normalize scenarioA_first)
   \<and> \<not> matches_any patterns_fragments (normalize scenarioA_first)
   \<and> classify_completeness patterns_complete patterns_fragments scenarioA_first = COMPLETE
   \<and> classify_completeness patterns_complete patterns_fragments scenarioA_first \<noteq> FRAGMENT
   \<and> classify_completeness patterns_complete patterns_fragments ''quiero un'' = COMPLETE
   \<and> classify_completeness patterns_complete patterns_fragments ''quiero'' = FRAGMENT"
  by code_simp

text \<open>
  Claim C2, which the medical configuration does not meet: run over the aggregate text
  of Scenario A, its entity patterns are to give a \<open>date\<close> set that contains the word for
  tomorrow, as the README documents the output. They give an empty \<open>date\<close> set, and an
  empty set for every other kind, \<open>time\<close> included: the configured date pattern needs
  digits, as in "12/05/2024", and the text has none.
\<close>

theorem scenarioA_date_empty:
  "map_of (extract_entities patterns_entities scenarioA_text) ''date'' = Some []
   \<and> \<not> entity_contains (extract_entities patterns_entities scenarioA_text) ''date'' manana
   \<and> extract_entities patterns_entities scenarioA_text = map (\<lambda>(kind, p). (kind, [])) patterns_entities
   \<and> map_of (extract_entities patterns_entities ''un turno el 12/05/2024 o el 3-4-25'') ''date''
       = Some [''12/05/2024'', ''3-4-25'']"
  by code_simp

subsection \<open>The order of the pattern tables\<close>

text \<open>
  Claim C4, as stated: in the ordered \<open>complete\<close> list the full-sentence patterns and the
  question-mark pattern (any text ending in a question mark) are listed strictly before
  the greeting and farewell patterns. The question-mark pattern is not listed before the
  greeting pattern.
\<close>

theorem question_mark_not_before_greetings:
  "\<not> listed_before patterns_complete question_mark_pattern greeting_pattern"
  by code_simp

text \<open>
  Claim C4, amended. In the ordered \<open>complete\<close> list of the medical configuration the
  eleven full-sentence patterns (positions 0 to 10) are listed strictly before the three
  greeting and farewell patterns (positions 11 to 13); the question-mark pattern is the
  last entry (position 14), after them.
\<close>

theorem complete_pattern_order:
  "length patterns_complete = 15
   \<and> map (indexOf patterns_complete) full_sentence_patterns = map Some [0..<11]
   \<and> map (indexOf patterns_complete) greetings_farewells = [Some 11, Some 12, Some 13]
   \<and> indexOf patterns_complete question_mark_pattern = Some 14
   \<and> list_all (\<lambda>p. list_all (listed_before patterns_complete p) greetings_farewells) full_sentence_patterns
   \<and> list_all (\<lambda>g. listed_before patterns_complete g question_mark_pattern) greetings_farewells"
  by code_simp

text \<open>
  Claim C5. The \<open>intents\<close> mapping of the medical configuration enumerates its patterns in
  exactly the priority order of the specification (appointment, cancellation,
  modification, information, medical query, greeting, farewell, confirmation, negation),
  so that the first-match-wins pass over the mapping gives, for every text, the intent
  that the priority order gives; and a text that matches no intent pattern gives UNKNOWN.
\<close>

theorem intents_priority_order:
  "map fst patterns_intents = intent_priority
   \<and> detect_intent patterns_intents t = intent_by_priority intent_priority patterns_intents t
   \<and> (\<not> list_ex (\<lambda>(name, p). regex_test p t) patterns_intents \<longrightarrow> detect_intent patterns_intents t = UNKNOWN)"
proof -
  have 1: "map fst patterns_intents = intent_priority"
    by (simp add: patterns_intents_def intent_priority_def)
  have 2: "detect_intent patterns_intents t = intent_by_priority intent_priority patterns_intents t"
    by (simp add: patterns_intents_def intent_priority_def)
  have 3: "\<not> list_ex (\<lambda>(name, p). regex_test p t) patterns_intents \<longrightarrow> detect_intent patterns_intents t = UNKNOWN"
    using detect_intent_UNKNOWN by blast
  from 1 2 3 show ?thesis by blast
qed

theorem intents_priority_order_witness:
  "\<not> list_ex (\<lambda>(name, p). regex_test p ''xyz'') patterns_intents
   \<and> detect_intent patterns_intents ''xyz'' = UNKNOWN
   \<and> intent_by_priority intent_priority patterns_intents ''xyz'' = UNKNOWN"
proof -
  have h: "\<not> list_ex (\<lambda>(name, p). regex_test p ''xyz'') patterns_intents" by code_simp
  from h intents_priority_order [of "''xyz''"] show ?thesis by metis
qed

subsection \<open>The configuration object and the environment template\<close>

text \<open>
  Claim C6, as stated: the table from intent to urgency class is present as data in the
  industry configuration object. The medical configuration, loaded in the environment of
  the template, contains no such table in any shape.
\<close>

theorem medical_config_lacks_urgency_table:
  "\<not> contains_urgency_table (medical_config (map_of env_example))"
  by (rule config_no_table) (rule clean_template)

text \<open>
  Claim C6, amended. The medical configuration object contains no table from intent to
  urgency class. Its sections are name, version, description, semantic, timing, buffer,
  circuitBreaker, metrics, ml, security and validation. In every environment, a property
  key names an urgency class only at the keys \<open>urgent\<close>, \<open>simple\<close> and \<open>complex\<close> of the
  three timing profiles, whose values are waiting times in milliseconds, and at the
  validation rule keyed \<open>timing.profiles.balanced.urgent\<close>; a property key names an
  intent only at the nine keys of \<open>semantic.patterns.intents\<close>, whose values are the
  intent patterns; and the only string values that can name an intent or an urgency class
  are the four that the module reads from the environment. When those four name
  neither, no object or array anywhere in the configuration relates an intent to an
  urgency class, in any of the shapes of \<open>holds_table\<close>: the derivation of a class from
  an intent is not configuration data.
\<close>

theorem no_urgency_table_in_config:
  "map fst (own_entries (medical_config ev))
       = [''name'', ''version'', ''description'', ''semantic'', ''timing'', ''buffer'', ''circuitBreaker'',
          ''metrics'', ''ml'', ''security'', ''validation'']
   \<and> key_paths names_urgency (medical_config ev)
       = [[''timing'', ''profiles'', ''aggressive'', ''urgent''], [''timing'', ''profiles'', ''aggressive'', ''simple''],
          [''timing'', ''profiles'', ''aggressive'', ''complex''], [''timing'', ''profiles'', ''balanced'', ''urgent''],
          [''timing'', ''profiles'', ''balanced'', ''simple''], [''timing'', ''profiles'', ''balanced'', ''complex''],
          [''timing'', ''profiles'', ''conservative'', ''urgent''], [''timing'', ''profiles'', ''conservative'', ''simple''],
          [''timing'', ''profiles'', ''conservative'', ''complex''],
          [''validation'', ''rules'', ''timing.profiles.balanced.urgent'']]
   \<and> get_path (medical_config ev) [''timing'', ''profiles'']
       = Inr (JObject
           [(''aggressive'', JObject [(''urgent'', JInt 1500), (''simple'', JInt 2000), (''complex'', JInt 3000),
                                      (''maxBuffer'', JInt 2)]),
            (''balanced'', JObject [(''urgent'', JInt 2000), (''simple'', JInt 3000), (''complex'', JInt 4000),
                                    (''maxBuffer'', JInt 3)]),
            (''conservative'', JObject [(''urgent'', JInt 3000), (''simple'', JInt 4000), (''complex'', JInt 6000),
                                        (''maxBuffer'', JInt 4)])])
   \<and> get_path (medical_config ev) [''validation'', ''rules'', ''timing.profiles.balanced.urgent'']
       = Inr (JObject [(''type'', JStr ''number''), (''min'', JInt 1000), (''max'', JInt 10000)])
   \<and> key_paths names_intent (medical_config ev)
       = map (\<lambda>name. [''semantic'', ''patterns'', ''intents'', name]) intent_priority
   \<and> get_path (medical_config ev) [''semantic'', ''patterns'', ''intents'']
       = Inr (JObject (map (\<lambda>(name, p). (name, JRegExp p)) patterns_intents))
   \<and> filter names_either (string_values (medical_config ev)) = filter names_either (env_strings ev)
   \<and> (env_clean ev \<longrightarrow> \<not> contains_urgency_table (medical_config ev))"
proof -
  have 1: "map fst (own_entries (medical_config ev))
       = [''name'', ''version'', ''description'', ''semantic'', ''timing'', ''buffer'', ''circuitBreaker'',
          ''metrics'', ''ml'', ''security'', ''validation'']"
    by (simp add: medical_config_def)
  have 2: "key_paths names_urgency (medical_config ev)
       = [[''timing'', ''profiles'', ''aggressive'', ''urgent''], [''timing'', ''profiles'', ''aggressive'', ''simple''],
          [''timing'', ''profiles'', ''aggressive'', ''complex''], [''timing'', ''profiles'', ''balanced'', ''urgent''],
          [''timing'', ''profiles'', ''balanced'', ''simple''], [''timing'', ''profiles'', ''balanced'', ''complex''],
          [''timing'', ''profiles'', ''conservative'', ''urgent''], [''timing'', ''profiles'', ''conservative'', ''simple''],
          [''timing'', ''profiles'', ''conservative'', ''complex''],
          [''validation'', ''rules'', ''timing.profiles.balanced.urgent'']]"
    by (simp add: config_key_paths urgency_names_def)
  have 3: "get_path (medical_config ev) [''timing'', ''profiles'']
       = Inr (JObject
           [(''aggressive'', JObject [(''urgent'', JInt 1500), (''simple'', JInt 2000), (''complex'', JInt 3000),
                                      (''maxBuffer'', JInt 2)]),
            (''balanced'', JObject [(''urgent'', JInt 2000), (''simple'', JInt 3000), (''complex'', JInt 4000),
                                    (''maxBuffer'', JInt 3)]),
            (''conservative'', JObject [(''urgent'', JInt 3000), (''simple'', JInt 4000), (''complex'', JInt 6000),
                                        (''maxBuffer'', JInt 4)])])"
    by (simp add: medical_config_def timing_section_def get_def read_prop_def)
  have 4: "get_path (medical_config ev) [''validation'', ''rules'', ''timing.profiles.balanced.urgent'']
       = Inr (JObject [(''type'', JStr ''number''), (''min'', JInt 1000), (''max'', JInt 10000)])"
    by (simp add: medical_config_def validation_section_def get_def read_prop_def)
  have 5: "get_path (medical_config ev) [''semantic'', ''patterns'', ''intents'']
       = Inr (JObject (map (\<lambda>(name, p). (name, JRegExp p)) patterns_intents))"
    by (simp add: medical_config_def semantic_section_def get_def read_prop_def)
  from 1 2 3 4 5 config_key_paths(2) [of ev] config_strings [of ev] config_no_table [of ev]
  show ?thesis by blast
qed

theorem no_urgency_table_in_config_witness:
  "env_clean Map.empty \<and> \<not> contains_urgency_table (medical_config Map.empty)
   \<and> filter names_either (string_values (medical_config Map.empty)) = []"
proof -
  have h: "env_clean Map.empty" by (rule clean_template)
  have e: "filter names_either (env_strings Map.empty) = []" by code_simp
  from no_urgency_table_in_config [of Map.empty] h e show ?thesis by metis
qed

text \<open>
  Claim C7. The default buffer TTL is 300 seconds, with sliding TTL enabled: the medical
  configuration sets \<open>buffer.ttl\<close> to 300 and \<open>buffer.slidingTTL\<close> to true, and the
  environment template sets \<open>BUFFER_TTL\<close> to 300.
\<close>

theorem default_ttl_300_sliding:
  "get_path (medical_config ev) [''buffer'', ''ttl''] = Inr (JInt 300)
   \<and> get_path (medical_config ev) [''buffer'', ''slidingTTL''] = Inr (JBool True)
   \<and> map_of env_example ''BUFFER_TTL'' = Some ''300''
   \<and> parseInt ''300'' = Some 300"
proof -
  have "map_of env_example ''BUFFER_TTL'' = Some ''300''" by code_simp
  moreover have "parseInt ''300'' = Some 300" by code_simp
  moreover have "get_path (medical_config ev) [''buffer'', ''ttl''] = Inr (JInt 300)"
    by (simp add: medical_config_def buffer_section_def get_def read_prop_def)
  moreover have "get_path (medical_config ev) [''buffer'', ''slidingTTL''] = Inr (JBool True)"
    by (simp add: medical_config_def buffer_section_def get_def read_prop_def)
  ultimately show ?thesis by blast
qed

subsection \<open>The validator\<close>

text \<open>
  Claim C3, which the validator does not meet: for every configured pattern set, a
  malformed pattern makes validation fail with a nonzero exit status. The loop that
  compiles patterns runs over \<open>fragments\<close> only. With a malformed pattern text in
  \<open>complete\<close>, and everything else in order, no error is recorded and \<open>main\<close> ends with
  status 0; the same pattern text in \<open>fragments\<close> is recorded twice and gives status 1.
\<close>

theorem malformed_complete_pattern_passes:
  "new_RegExp malformed_complete_world unclosed_group = Some ''Invalid regular expression: /(/: Unterminated group''
   \<and> run_phases malformed_complete_world = Some \<lparr>errors = [], warnings = [], checks = 41, passed = 41\<rparr>
   \<and> main malformed_complete_world = 0
   \<and> map_option errors (run_phases malformed_fragment_world)
       = Some [''Invalid regex in fragments[1]: Invalid regular expression: /(/: Unterminated group'',
               ''Some fragment patterns have invalid regex syntax'']
   \<and> main malformed_fragment_world = 1"
  by code_simp

text \<open>
  Claim C8. After all validation phases \<open>displaySummary\<close> returns true, and \<open>main\<close> ends
  with status 0, if and only if the list of errors is empty; the returned value does not
  depend on the warnings, so warnings alone never make \<open>displaySummary\<close> return false or
  the process exit with a nonzero status.
\<close>

theorem displaySummary_iff_no_errors:
  "(snd (displaySummary this) \<longleftrightarrow> errors this = [])
   \<and> snd (displaySummary (this\<lparr>warnings := ws\<rparr>)) = snd (displaySummary this)
   \<and> (run_phases w = Some this \<longrightarrow> (main w = 0 \<longleftrightarrow> errors this = []))
   \<and> (main w = 0 \<or> main w = 1)"
  by (auto simp: main_exit displaySummary_def split: option.splits)

theorem displaySummary_iff_no_errors_witness:
  "run_phases warn_world
     = Some \<lparr>errors = [], warnings = [''BUFFER_TTL is not a valid positive number''], checks = 41, passed = 40\<rparr>
   \<and> snd (displaySummary \<lparr>errors = [], warnings = [''BUFFER_TTL is not a valid positive number''],
                            checks = 41, passed = 40\<rparr>)
   \<and> main warn_world = 0"
proof -
  let ?v = "\<lparr>errors = [], warnings = [''BUFFER_TTL is not a valid positive number''], checks = 41, passed = 40\<rparr>"
  have h: "run_phases warn_world = Some ?v" by code_simp
  have e: "errors ?v = []" by simp
  from displaySummary_iff_no_errors [of ?v "[]" warn_world] h e show ?thesis by blast
qed

text \<open>
  Claim C9. Every call of \<open>check\<close> increments \<open>checks\<close> by exactly one and increments
  exactly one of \<open>passed\<close> (condition true), \<open>errors.length\<close> (condition false, not a
  warning) and \<open>warnings.length\<close> (condition false, a warning) by exactly one, leaving
  the other two as they were; hence \<open>check\<close> preserves
  \<open>checks = passed + errors.length + warnings.length\<close>.
\<close>

theorem check_counts:
  "checks (snd (check c e w this)) = checks this + 1
   \<and> (c \<longrightarrow> passed (snd (check c e w this)) = passed this + 1
          \<and> errors (snd (check c e w this)) = errors this
          \<and> warnings (snd (check c e w this)) = warnings this)
   \<and> (\<not> c \<and> \<not> w \<longrightarrow> passed (snd (check c e w this)) = passed this
          \<and> errors (snd (check c e w this)) = errors this @ [e]
          \<and> length (errors (snd (check c e w this))) = length (errors this) + 1
          \<and> warnings (snd (check c e w this)) = warnings this)
   \<and> (\<not> c \<and> w \<longrightarrow> passed (snd (check c e w this)) = passed this
          \<and> errors (snd (check c e w this)) = errors this
          \<and> warnings (snd (check c e w this)) = warnings this @ [e]
          \<and> length (warnings (snd (check c e w this))) = length (warnings this) + 1)
   \<and> (tally_ok this \<longrightarrow> tally_ok (snd (check c e w this)))"
  by (simp add: check_def tally_ok_def Let_def)

theorem check_counts_witness:
  "tally_ok new_ConfigValidator
   \<and> tally_ok (snd (check False ''bad'' True new_ConfigValidator))
   \<and> warnings (snd (check False ''bad'' True new_ConfigValidator)) = [''bad'']
   \<and> errors (snd (check False ''bad'' False new_ConfigValidator)) = [''bad'']
   \<and> passed (snd (check True ''bad'' False new_ConfigValidator)) = 1
   \<and> checks (snd (check False ''bad'' True new_ConfigValidator)) = 1"
  using check_counts [of False "''bad''" True new_ConfigValidator]
        check_counts [of False "''bad''" False new_ConfigValidator]
        check_counts [of True "''bad''" False new_ConfigValidator]
  by (simp add: new_ConfigValidator_def tally_ok_def)

text \<open>
  Claim C10. In \<open>validateEnvironment\<close> a missing \<open>REDIS_URL\<close> or \<open>INDUSTRY_CONFIG\<close> is
  recorded as an error, so that validation fails (\<open>main\<close> ends with status 1), whereas a
  \<open>REDIS_URL\<close> that does not match the form \<open>redis://host:port\<close>, and a \<open>BUFFER_TTL\<close>,
  \<open>TIMING_URGENT\<close>, \<open>TIMING_SIMPLE\<close> or \<open>TIMING_COMPLEX\<close> that is set and is not a positive
  number, is recorded as a warning only: the errors that \<open>validateEnvironment\<close> adds are
  determined by the file \<open>.env\<close> and the two required variables alone. A variable is
  missing when it is unset or empty, and a value is a positive number when \<open>parseInt\<close>
  reads one from it.
\<close>

theorem validateEnvironment_severity:
  assumes "cwd w = Some dir"
  shows "(\<exists>this'. validateEnvironment w this = Some this'
    \<and> errors this' = errors this
         @ (if existsSync w (path_join [dir, ''.env'']) then [] else [''.env file is missing (copy from .env.example)''])
         @ (if env_truthy w ''REDIS_URL'' then [] else [''REDIS_URL is missing in .env file''])
         @ (if env_truthy w ''INDUSTRY_CONFIG'' then [] else [''INDUSTRY_CONFIG is missing in .env file''])
    \<and> warnings this' = warnings this
         @ (if env_truthy w ''REDIS_URL'' \<and> \<not> regex_test redisUrlPattern (env_text w ''REDIS_URL'')
            then [''Redis URL format is invalid (should be redis://host:port)''] else [])
         @ concat (map (\<lambda>name. if env_truthy w name \<and> \<not> positive_int (parseInt (env_text w name))
                                then [name @ '' is not a valid positive number''] else [])
                     [''BUFFER_TTL'', ''TIMING_URGENT'', ''TIMING_SIMPLE'', ''TIMING_COMPLEX'']))
    \<and> (\<not> env_truthy w ''REDIS_URL'' \<or> \<not> env_truthy w ''INDUSTRY_CONFIG'' \<longrightarrow> main w = 1)"
  using validateEnvironment_effect [OF assms, of this] missing_required_fails [of w] by blast

theorem validateEnvironment_severity_witness:
  "cwd bad_env_world = Some ''/app''
   \<and> \<not> env_truthy bad_env_world ''INDUSTRY_CONFIG''
   \<and> validateEnvironment bad_env_world new_ConfigValidator
       = Some \<lparr>errors = [''INDUSTRY_CONFIG is missing in .env file''],
               warnings = [''Redis URL format is invalid (should be redis://host:port)'',
                           ''BUFFER_TTL is not a valid positive number'',
                           ''TIMING_COMPLEX is not a valid positive number''],
               checks = 7, passed = 3\<rparr>
   \<and> main bad_env_world = 1
   \<and> run_phases odd_values_world
       = Some \<lparr>errors = [],
               warnings = [''Redis URL format is invalid (should be redis://host:port)'',
                           ''BUFFER_TTL is not a valid positive number'',
                           ''TIMING_URGENT is not a valid positive number''],
               checks = 39, passed = 36\<rparr>
   \<and> main odd_values_world = 0"
proof -
  have h: "cwd bad_env_world = Some ''/app''" by code_simp
  have m: "\<not> env_truthy bad_env_world ''INDUSTRY_CONFIG''" by code_simp
  have v: "validateEnvironment bad_env_world new_ConfigValidator
       = Some \<lparr>errors = [''INDUSTRY_CONFIG is missing in .env file''],
               warnings = [''Redis URL format is invalid (should be redis://host:port)'',
                           ''BUFFER_TTL is not a valid positive number'',
                           ''TIMING_COMPLEX is not a valid positive number''],
               checks = 7, passed = 3\<rparr>"
    by code_simp
  have r: "run_phases odd_values_world
       = Some \<lparr>errors = [],
               warnings = [''Redis URL format is invalid (should be redis://host:port)'',
                           ''BUFFER_TTL is not a valid positive number'',
                           ''TIMING_URGENT is not a valid positive number''],
               checks = 39, passed = 36\<rparr>"
    by code_simp
  have e: "main odd_values_world = 0" by code_simp
  from validateEnvironment_severity [OF h, of new_ConfigValidator] m have "main bad_env_world = 1" by blast
  with h m v r e show ?thesis by blast
qed

end
